theory Spec2Isabelle
  imports Main
begin

section \<open>Python strings\<close>

text \<open>
  A Python \<open>str\<close> is a sequence of code points. It is modelled as \<open>string\<close>, one
  \<open>char\<close> per code point, for the code points 0..255; the character classes below are
  those of \<open>str.isspace\<close>, \<open>str.lower\<close>, \<open>str.isalpha\<close>, \<open>str.isupper\<close> and of the
  classes \<open>\s\<close>, \<open>\d\<close>, \<open>\w\<close> of the \<open>re\<close> module on that range.
\<close>

definition py_isspace :: "char \<Rightarrow> bool" where
  "py_isspace c = (c \<in> set [CHR 0x09, CHR 0x0A, CHR 0x0B, CHR 0x0C, CHR 0x0D, CHR 0x1C,
                              CHR 0x1D, CHR 0x1E, CHR 0x1F, CHR 0x20, CHR 0x85, CHR 0xA0])"

definition re_digit :: "char \<Rightarrow> bool" where
  "re_digit c = (c \<in> set ''0123456789'')"

definition ascii_upper :: "char \<Rightarrow> bool" where
  "ascii_upper c = (c \<in> set ''ABCDEFGHIJKLMNOPQRSTUVWXYZ'')"

definition ascii_lower :: "char \<Rightarrow> bool" where
  "ascii_lower c = (c \<in> set ''abcdefghijklmnopqrstuvwxyz'')"

definition ascii_letter :: "char \<Rightarrow> bool" where
  "ascii_letter c = (ascii_upper c \<or> ascii_lower c)"

text \<open>The upper-case letters beyond ASCII (C0..DE without D7) and their lower case.\<close>

definition latin_upper :: string where
  "latin_upper =
     [CHR 0xC0, CHR 0xC1, CHR 0xC2, CHR 0xC3, CHR 0xC4, CHR 0xC5, CHR 0xC6, CHR 0xC7,
      CHR 0xC8, CHR 0xC9, CHR 0xCA, CHR 0xCB, CHR 0xCC, CHR 0xCD, CHR 0xCE, CHR 0xCF,
      CHR 0xD0, CHR 0xD1, CHR 0xD2, CHR 0xD3, CHR 0xD4, CHR 0xD5, CHR 0xD6, CHR 0xD8,
      CHR 0xD9, CHR 0xDA, CHR 0xDB, CHR 0xDC, CHR 0xDD, CHR 0xDE]"

definition latin_lower :: string where
  "latin_lower =
     [CHR 0xE0, CHR 0xE1, CHR 0xE2, CHR 0xE3, CHR 0xE4, CHR 0xE5, CHR 0xE6, CHR 0xE7,
      CHR 0xE8, CHR 0xE9, CHR 0xEA, CHR 0xEB, CHR 0xEC, CHR 0xED, CHR 0xEE, CHR 0xEF,
      CHR 0xF0, CHR 0xF1, CHR 0xF2, CHR 0xF3, CHR 0xF4, CHR 0xF5, CHR 0xF6, CHR 0xF8,
      CHR 0xF9, CHR 0xFA, CHR 0xFB, CHR 0xFC, CHR 0xFD, CHR 0xFE]"

definition py_isupper :: "char \<Rightarrow> bool" where
  "py_isupper c = (ascii_upper c \<or> c \<in> set latin_upper)"

definition py_isalpha :: "char \<Rightarrow> bool" where
  "py_isalpha c =
     (ascii_letter c \<or> c \<in> set latin_upper \<or> c \<in> set latin_lower
      \<or> c \<in> set [CHR 0xAA, CHR 0xB5, CHR 0xBA, CHR 0xDF, CHR 0xFF])"

definition re_word :: "char \<Rightarrow> bool" where
  "re_word c =
     (py_isalpha c \<or> re_digit c \<or> c = CHR ''_''
      \<or> c \<in> set [CHR 0xB2, CHR 0xB3, CHR 0xB9, CHR 0xBC, CHR 0xBD, CHR 0xBE])"

definition py_lower :: "char \<Rightarrow> char" where
  "py_lower c =
     (case map_of (zip (''ABCDEFGHIJKLMNOPQRSTUVWXYZ'' @ latin_upper)
                       (''abcdefghijklmnopqrstuvwxyz'' @ latin_lower)) c of
        Some l \<Rightarrow> l
      | None \<Rightarrow> c)"

definition lower_str :: "string \<Rightarrow> string" where
  "lower_str s = map py_lower s"

definition py_strip :: "string \<Rightarrow> string" where
  "py_strip s = rev (dropWhile py_isspace (rev (dropWhile py_isspace s)))"

text \<open>\<open>s.split(d)\<close> for a one-character separator: never the empty list.\<close>

fun py_split :: "char \<Rightarrow> string \<Rightarrow> string list" where
  "py_split d [] = [[]]"
| "py_split d (c # cs) =
     (if c = d then [] # py_split d cs
      else (case py_split d cs of [] \<Rightarrow> [[c]] | x # xs \<Rightarrow> (c # x) # xs))"

fun py_join :: "string \<Rightarrow> string list \<Rightarrow> string" where
  "py_join sep [] = []"
| "py_join sep [x] = x"
| "py_join sep (x # y # ys) = x @ sep @ py_join sep (y # ys)"

definition starts_with :: "string \<Rightarrow> string \<Rightarrow> bool" where
  "starts_with p s = (take (length p) s = p)"

text \<open>\<open>p in s\<close>\<close>

fun py_in :: "string \<Rightarrow> string \<Rightarrow> bool" where
  "py_in p [] = (p = [])"
| "py_in p (c # cs) = (starts_with p (c # cs) \<or> py_in p cs)"

text \<open>\<open>s.find(c)\<close> for one character: \<open>None\<close> is Python's -1.\<close>

fun py_find :: "char \<Rightarrow> string \<Rightarrow> nat option" where
  "py_find d [] = None"
| "py_find d (c # cs) = (if c = d then Some 0 else map_option Suc (py_find d cs))"

text \<open>\<open>s.replace(old, new)\<close>\<close>

function py_replace_ne :: "string \<Rightarrow> string \<Rightarrow> string \<Rightarrow> string" where
  "py_replace_ne old new s =
     (if s = [] \<or> old = [] then s
      else if starts_with old s then new @ py_replace_ne old new (drop (length old) s)
      else hd s # py_replace_ne old new (tl s))"
  by pat_completeness auto
termination
  by (relation "measure (\<lambda>(old, new, s). length s)") auto

declare py_replace_ne.simps [simp del]

definition py_replace :: "string \<Rightarrow> string \<Rightarrow> string \<Rightarrow> string" where
  "py_replace old new s =
     (if old = [] then new @ concat (map (\<lambda>c. c # new) s) else py_replace_ne old new s)"

definition newline :: char where
  "newline = CHR 0x0A"

section \<open>The \<open>re\<close> module: a backtracking matcher\<close>

text \<open>
  Patterns are values of \<open>rx\<close>; \<open>rx_match\<close> is the backtracking search of \<open>re\<close>, with the
  priorities of the module: the first alternative first, a greedy repetition
  (\<open>RStar\<close>, Python \<open>*\<close>) longest first, a lazy one (\<open>RStarLazy\<close>, Python \<open>*?\<close>) shortest
  first. A match state is the text consumed so far (reversed), the text ahead and the
  groups captured. The continuation is the rest of the pattern. An iteration of a
  repetition that consumes nothing is cut, as \<open>re\<close> does.
\<close>

datatype rx =
    RChar "char \<Rightarrow> bool"
  | REps
  | RSeq rx rx
  | RAlt rx rx
  | RStar rx
  | RStarLazy rx
  | RGroup nat rx
  | RBol
  | REol
  | REolM
  | RWordB
  | RLook rx

type_synonym mstate = "string \<times> string \<times> (nat \<times> string) list"

function rx_match :: "rx \<Rightarrow> mstate \<Rightarrow> (mstate \<Rightarrow> mstate option) \<Rightarrow> mstate option" where
  "rx_match (RChar p) (b, r, g) k =
     (case r of [] \<Rightarrow> None | c # cs \<Rightarrow> if p c then k (c # b, cs, g) else None)"
| "rx_match REps st k = k st"
| "rx_match (RSeq x y) st k = rx_match x st (\<lambda>st'. rx_match y st' k)"
| "rx_match (RAlt x y) st k =
     (case rx_match x st k of Some v \<Rightarrow> Some v | None \<Rightarrow> rx_match y st k)"
| "rx_match (RStar x) st k =
     (case rx_match x st
             (\<lambda>st'. if length (fst (snd st')) < length (fst (snd st))
                    then rx_match (RStar x) st' k else None)
      of Some v \<Rightarrow> Some v | None \<Rightarrow> k st)"
| "rx_match (RStarLazy x) st k =
     (case k st of Some v \<Rightarrow> Some v
      | None \<Rightarrow>
          rx_match x st
            (\<lambda>st'. if length (fst (snd st')) < length (fst (snd st))
                   then rx_match (RStarLazy x) st' k else None))"
| "rx_match (RGroup n x) (b, r, g) k =
     rx_match x (b, r, g)
       (\<lambda>(b', r', g'). k (b', r', (n, rev (take (length b' - length b) b')) # g'))"
| "rx_match RBol (b, r, g) k = (if b = [] then k (b, r, g) else None)"
| "rx_match REol (b, r, g) k = (if r = [] \<or> r = [newline] then k (b, r, g) else None)"
| "rx_match REolM (b, r, g) k =
     (if r = [] \<or> hd r = newline then k (b, r, g) else None)"
| "rx_match RWordB (b, r, g) k =
     (if (b \<noteq> [] \<and> re_word (hd b)) \<noteq> (r \<noteq> [] \<and> re_word (hd r))
      then k (b, r, g) else None)"
| "rx_match (RLook x) st k = (case rx_match x st Some of Some v \<Rightarrow> k st | None \<Rightarrow> None)"
  by pat_completeness auto
termination
  by (relation "measures [\<lambda>(x, st, k). size x, \<lambda>(x, st, k). length (fst (snd st))]") auto

text \<open>
  Pattern syntax: a character, a character under IGNORECASE, any character but one,
  any character (the dot under DOTALL), \<open>\d\<close>, \<open>\s\<close>, a sequence, a literal string,
  \<open>x+\<close> and \<open>x?\<close>.
\<close>

definition rc :: "char \<Rightarrow> rx" where
  "rc c = RChar (\<lambda>x. x = c)"

definition rci :: "char \<Rightarrow> rx" where
  "rci c = RChar (\<lambda>x. py_lower x = py_lower c)"

definition rnot :: "char \<Rightarrow> rx" where
  "rnot c = RChar (\<lambda>x. x \<noteq> c)"

definition rany :: rx where
  "rany = RChar (\<lambda>x. True)"

definition rdigit :: rx where
  "rdigit = RChar re_digit"

definition rspace :: rx where
  "rspace = RChar py_isspace"

fun rseq :: "rx list \<Rightarrow> rx" where
  "rseq [] = REps"
| "rseq [x] = x"
| "rseq (x # xs) = RSeq x (rseq xs)"

definition rstr :: "string \<Rightarrow> rx" where
  "rstr s = rseq (map rc s)"

definition rstri :: "string \<Rightarrow> rx" where
  "rstri s = rseq (map rci s)"

definition rplus :: "rx \<Rightarrow> rx" where
  "rplus x = RSeq x (RStar x)"

definition ropt :: "rx \<Rightarrow> rx" where
  "ropt x = RAlt x REps"

text \<open>
  A match object: the text before the match (\<open>text[:m.start()]\<close>), \<open>m.group(0)\<close>, and
  the groups, latest capture first.
\<close>

record rmatch =
  m_before :: string
  m_text :: string
  m_groups :: "(nat \<times> string) list"

definition group :: "rmatch \<Rightarrow> nat \<Rightarrow> string" where
  "group m n = (case map_of (m_groups m) n of Some s \<Rightarrow> s | None \<Rightarrow> [])"

text \<open>\<open>re.match\<close>: at the start of the text only.\<close>

definition re_match :: "rx \<Rightarrow> string \<Rightarrow> rmatch option" where
  "re_match x s =
     (case rx_match x ([], s, []) Some of
        None \<Rightarrow> None
      | Some (b, r, g) \<Rightarrow> Some \<lparr>m_before = [], m_text = rev b, m_groups = g\<rparr>)"

text \<open>
  \<open>re.search\<close> from a position: the leftmost start where the pattern matches. \<open>b\<close> is the
  text before the position, reversed; the result is the text before the match
  (reversed) and the state at the end of the match.
\<close>

fun rx_search :: "rx \<Rightarrow> string \<Rightarrow> string \<Rightarrow> (string \<times> mstate) option" where
  "rx_search x b [] =
     (case rx_match x (b, [], []) Some of None \<Rightarrow> None | Some st \<Rightarrow> Some (b, st))"
| "rx_search x b (c # cs) =
     (case rx_match x (b, c # cs, []) Some of
        None \<Rightarrow> rx_search x (c # b) cs
      | Some st \<Rightarrow> Some (b, st))"

definition mk_match :: "string \<Rightarrow> mstate \<Rightarrow> rmatch" where
  "mk_match b0 st =
     \<lparr>m_before = rev b0,
      m_text = rev (take (length (fst st) - length b0) (fst st)),
      m_groups = snd (snd st)\<rparr>"

definition re_search :: "rx \<Rightarrow> string \<Rightarrow> rmatch option" where
  "re_search x s =
     (case rx_search x [] s of None \<Rightarrow> None | Some (b0, st) \<Rightarrow> Some (mk_match b0 st))"

text \<open>
  The successive non-overlapping matches of \<open>re.finditer\<close>, each with the text between
  it and the match before, and the text after the last match. No pattern of this
  program matches the empty string, so a scan stops at an empty match.
\<close>

function rx_scan :: "rx \<Rightarrow> string \<Rightarrow> string \<Rightarrow> (string \<times> rmatch) list \<times> string" where
  "rx_scan x b r =
     (case rx_search x b r of
        None \<Rightarrow> ([], r)
      | Some (b0, st) \<Rightarrow>
          (let gap = take (length b0 - length b) r;
               m = mk_match b0 st
           in if length (fst (snd st)) < length r
              then (let (ms, rest) = rx_scan x (fst st) (fst (snd st))
                    in ((gap, m) # ms, rest))
              else ([(gap, m)], fst (snd st))))"
  by pat_completeness auto
termination
  by (relation "measure (\<lambda>(x, b, r). length r)") auto

declare rx_scan.simps [simp del]

definition re_finditer :: "rx \<Rightarrow> string \<Rightarrow> rmatch list" where
  "re_finditer x s = map snd (fst (rx_scan x [] s))"

text \<open>\<open>re.sub(x, f, s)\<close> with a function \<open>f\<close> of the match; a constant for a string.\<close>

definition re_sub :: "rx \<Rightarrow> (rmatch \<Rightarrow> string) \<Rightarrow> string \<Rightarrow> string" where
  "re_sub x f s =
     (case rx_scan x [] s of (ms, rest) \<Rightarrow> concat (map (\<lambda>(gap, m). gap @ f m) ms) @ rest)"

text \<open>\<open>re.sub(x, f, s, count=1)\<close>\<close>

definition re_sub1 :: "rx \<Rightarrow> (rmatch \<Rightarrow> string) \<Rightarrow> string \<Rightarrow> string" where
  "re_sub1 x f s =
     (case rx_search x [] s of
        None \<Rightarrow> s
      | Some (b0, st) \<Rightarrow> rev b0 @ f (mk_match b0 st) @ fst (snd st))"

text \<open>\<open>re.split(x, s)\<close> for a pattern without groups.\<close>

definition re_split :: "rx \<Rightarrow> string \<Rightarrow> string list" where
  "re_split x s = (case rx_scan x [] s of (ms, rest) \<Rightarrow> map fst ms @ [rest])"

section \<open>The patterns of \<open>utils.py\<close>\<close>

text \<open>\<^verbatim>\<open>\n\s*\n\<close>\<close>

definition blank_line_rx :: rx where
  "blank_line_rx = rseq [rc newline, RStar rspace, rc newline]"

text \<open>\<^verbatim>\<open>\d{2}:\d{2}:\d{2},\d{3}\<close>\<close>

definition time_rx :: rx where
  "time_rx = rseq [rdigit, rdigit, rc CHR '':'', rdigit, rdigit, rc CHR '':'', rdigit, rdigit,
                   rc CHR '','', rdigit, rdigit, rdigit]"

text \<open>\<^verbatim>\<open>\d{2}:\d{2}:\d{2},\d{3}\s*-->\s*\d{2}:\d{2}:\d{2},\d{3}\<close>\<close>

definition timestamp_rx :: rx where
  "timestamp_rx = rseq [time_rx, RStar rspace, rstr ''-->'', RStar rspace, time_rx]"

text \<open>\<^verbatim>\<open>\d+\n\d{2}:\d{2}:\d{2},\d{3}\s*-->\s*\d{2}:\d{2}:\d{2},\d{3}\<close>\<close>

definition srt_shape_rx :: rx where
  "srt_shape_rx = rseq [rplus rdigit, rc newline, timestamp_rx]"

text \<open>\<^verbatim>\<open><font[^>]*>\<close> and \<^verbatim>\<open><b[^>]*>\<close>, IGNORECASE\<close>

definition font_open_rx :: rx where
  "font_open_rx = rseq [rstri ''<font'', RStar (rnot CHR ''>''), rc CHR ''>'']"

definition b_open_rx :: rx where
  "b_open_rx = rseq [rstri ''<b'', RStar (rnot CHR ''>''), rc CHR ''>'']"

text \<open>\<^verbatim>\<open>\s+\<close>, \<^verbatim>\<open>\{[^}]*\}\<close>, \<^verbatim>\<open><[^>]+>\<close>\<close>

definition spaces_rx :: rx where
  "spaces_rx = rplus rspace"

definition brace_rx :: rx where
  "brace_rx = rseq [rc CHR ''{'', RStar (rnot CHR ''}''), rc CHR ''}'']"

definition tag_rx :: rx where
  "tag_rx = rseq [rc CHR ''<'', rplus (rnot CHR ''>''), rc CHR ''>'']"

text \<open>
  \<open>complex_pattern\<close>, DOTALL and IGNORECASE:
  \<^verbatim>\<open>(<font[^>]*><b[^>]*>(?:\{[^}]*\})*(?:<font[^>]*>)?)(.*?)((?:</font>)?(?:\{[^}]*\})*</b></font>)\<close>
\<close>

definition complex_pattern :: rx where
  "complex_pattern =
     rseq [RGroup 1 (rseq [font_open_rx, b_open_rx, RStar brace_rx, ropt font_open_rx]),
           RGroup 2 (RStarLazy rany),
           RGroup 3 (rseq [ropt (rstri ''</font>''), RStar brace_rx, rstri ''</b></font>''])]"

text \<open>
  \<open>simple_complex_pattern\<close>, DOTALL and IGNORECASE:
  \<^verbatim>\<open>(<font[^>]*><b[^>]*>(?:\{[^}]*\})*)(.*?)((?:\{[^}]*\})*</b></font>)\<close>
\<close>

definition simple_complex_pattern :: rx where
  "simple_complex_pattern =
     rseq [RGroup 1 (rseq [font_open_rx, b_open_rx, RStar brace_rx]),
           RGroup 2 (RStarLazy rany),
           RGroup 3 (rseq [RStar brace_rx, rstri ''</b></font>''])]"

text \<open>\<open>simple_font_pattern\<close>, DOTALL and IGNORECASE: \<^verbatim>\<open>(<font[^>]*>)(.*?)(</font>)\<close>\<close>

definition simple_font_pattern :: rx where
  "simple_font_pattern =
     rseq [RGroup 1 font_open_rx, RGroup 2 (RStarLazy rany), RGroup 3 (rstri ''</font>'')]"

text \<open>\<^verbatim>\<open>^\d+[\.\)]\s*\<close>\<close>

definition ordinal_rx :: rx where
  "ordinal_rx =
     rseq [RBol, rplus rdigit, RChar (\<lambda>c. c = CHR ''.'' \<or> c = CHR '')''), RStar rspace]"

text \<open>\<^verbatim>\<open>[A-Z][a-zA-Z]+\<close> and \<^verbatim>\<open>\s+[A-Z][a-zA-Z]+\<close>\<close>

definition cap_word_rx :: rx where
  "cap_word_rx = RSeq (RChar ascii_upper) (rplus (RChar ascii_letter))"

definition more_cap_word_rx :: rx where
  "more_cap_word_rx = RSeq (rplus rspace) cap_word_rx"

text \<open>\<^verbatim>\<open>\b[A-Z][a-zA-Z]+(?:\s+[A-Z][a-zA-Z]+){0,2}\b\<close>\<close>

definition proper_noun_rx :: rx where
  "proper_noun_rx =
     rseq [RWordB, cap_word_rx, ropt (RSeq more_cap_word_rx (ropt more_cap_word_rx)), RWordB]"

text \<open>\<^verbatim>\<open>"([^"]+)"\<close>\<close>

definition quoted_rx :: rx where
  "quoted_rx = rseq [rc CHR 0x22, RGroup 1 (rplus (rnot CHR 0x22)), rc CHR 0x22]"

text \<open>\<^verbatim>\<open>^[A-Z][a-zA-Z]+(?:\s+[A-Z][a-zA-Z]+)*$\<close>\<close>

definition preserved_noun_rx :: rx where
  "preserved_noun_rx = rseq [RBol, cap_word_rx, RStar more_cap_word_rx, REol]"

section \<open>The backend\<close>

text \<open>
  The backend is reached by \<open>requests.post\<close>. A request is named by the function that
  builds its payload and carries the variable part of the prompt. The outcome of a
  call is a status 200 with the \<open>response\<close> field of the body, another status, or an
  exception raised inside the \<open>try\<close> block (transport failure, a body that is not
  JSON). The backend is a function of the calls made so far and of the request. Every
  function that calls it takes the log of events and returns the extended log.
\<close>

datatype request =
    ChunkRequest string string
  | TextOnlyRequest "string list"
  | SimpleTextRequest string
  | EvolutionaryChunkRequest "string list"

datatype post_outcome = Status200 string | StatusOther nat | Raised

datatype event = Post request | Sleep nat

type_synonym backend = "event list \<Rightarrow> request \<Rightarrow> post_outcome"

fun posts_of :: "event list \<Rightarrow> request list" where
  "posts_of [] = []"
| "posts_of (Post r # es) = r # posts_of es"
| "posts_of (Sleep d # es) = posts_of es"

fun sleeps_of :: "event list \<Rightarrow> nat list" where
  "sleeps_of [] = []"
| "sleeps_of (Post r # es) = sleeps_of es"
| "sleeps_of (Sleep d # es) = d # sleeps_of es"

section \<open>\<open>extract_translations_from_evolutionary_response\<close>\<close>

definition leaked_markers :: "string list" where
  "leaked_markers =
     [''never translate'', ''do not translate'', ''person names'', ''place names'',
      ''technique/ability'', ''capital letter'', ''translate only'', ''texts:'',
      ''translations:'']"

text \<open>The first loop: the stripped lines that are not empty and hold no marker.\<close>

definition clean_lines :: "string \<Rightarrow> string list" where
  "clean_lines response =
     filter (\<lambda>line. line \<noteq> [] \<and> \<not> list_ex (\<lambda>skip. py_in skip (lower_str line)) leaked_markers)
       (map py_strip (py_split newline response))"

text \<open>The second loop: the ordinal marker removed, the lines left empty dropped.\<close>

definition candidate_translations :: "string \<Rightarrow> string list" where
  "candidate_translations response =
     filter (\<lambda>line. line \<noteq> [])
       (map (re_sub ordinal_rx (\<lambda>m. [])) (filter (\<lambda>line. line \<noteq> []) (clean_lines response)))"

text \<open>The \<open>while\<close> loop that pads with the original text at the same index.\<close>

function pad_translations :: "string list \<Rightarrow> string list \<Rightarrow> string list" where
  "pad_translations translations original_texts =
     (if length translations < length original_texts
      then (let idx = length translations
            in pad_translations
                 (translations @ [if idx < length original_texts then original_texts ! idx else []])
                 original_texts)
      else translations)"
  by pat_completeness auto
termination
  by (relation "measure (\<lambda>(t, orig). length orig - length t)") auto

declare pad_translations.simps [simp del]

definition extract_translations_from_evolutionary_response ::
    "string \<Rightarrow> string list \<Rightarrow> string list" where
  "extract_translations_from_evolutionary_response response original_texts =
     take (length original_texts)
       (pad_translations (candidate_translations response) original_texts)"

text \<open>
  The reconciliation of \<open>translate_text_only_with_ollama\<close> (the \<open>if\<close>/\<open>elif\<close> after its
  cleaning loop), on the candidates that loop has collected.
\<close>

definition reconcile_text_only :: "string list \<Rightarrow> string list \<Rightarrow> string list" where
  "reconcile_text_only translations texts =
     (if length translations < length texts then pad_translations translations texts
      else if length translations > length texts then take (length texts) translations
      else translations)"

section \<open>\<open>translate_text_chunk_with_evolutionary_config\<close>\<close>

definition translate_text_chunk_with_evolutionary_config ::
    "backend \<Rightarrow> event list \<Rightarrow> string list \<Rightarrow> string list \<times> event list" where
  "translate_text_chunk_with_evolutionary_config bk w texts =
     (let req = EvolutionaryChunkRequest texts
      in case bk w req of
           Status200 body \<Rightarrow>
             (extract_translations_from_evolutionary_response (py_strip body) texts,
              w @ [Post req])
         | StatusOther code \<Rightarrow> (texts, w @ [Post req])
         | Raised \<Rightarrow> (texts, w @ [Post req]))"

section \<open>\<open>translate_texts_with_evolutionary_config\<close>\<close>

definition chunk_size :: nat where
  "chunk_size = 10"

text \<open>\<open>[texts[i:i + chunk_size] for i in range(0, len(texts), chunk_size)]\<close>\<close>

definition text_chunks :: "string list \<Rightarrow> string list list" where
  "text_chunks texts =
     map (\<lambda>k. take chunk_size (drop (k * chunk_size) texts))
       [0 ..< (length texts + chunk_size - 1) div chunk_size]"

text \<open>
  The loop over \<open>enumerate(text_chunks)\<close>: \<open>n\<close> is \<open>len(text_chunks)\<close>, \<open>i\<close> the index of the
  chunk at the head; the state is \<open>all_translations\<close> and the log.
\<close>

fun translate_chunks_loop ::
    "backend \<Rightarrow> nat \<Rightarrow> nat \<Rightarrow> string list list \<Rightarrow> string list \<times> event list
      \<Rightarrow> string list \<times> event list" where
  "translate_chunks_loop bk n i [] (all_translations, w) = (all_translations, w)"
| "translate_chunks_loop bk n i (chunk # rest) (all_translations, w) =
     (case translate_text_chunk_with_evolutionary_config bk w chunk of
        (translated_chunk, w1) \<Rightarrow>
          translate_chunks_loop bk n (i + 1) rest
            (all_translations @ translated_chunk,
             if int i < int n - 1 then w1 @ [Sleep 1] else w1))"

definition translate_texts_with_evolutionary_config ::
    "backend \<Rightarrow> event list \<Rightarrow> string list \<Rightarrow> string list \<times> event list" where
  "translate_texts_with_evolutionary_config bk w texts =
     translate_chunks_loop bk (length (text_chunks texts)) 0 (text_chunks texts) ([], w)"

text \<open>
  The translated chunks in the order the loop obtains them: the same loop, keeping
  each \<open>translated_chunk\<close> apart.
\<close>

fun translated_chunks ::
    "backend \<Rightarrow> nat \<Rightarrow> nat \<Rightarrow> string list list \<Rightarrow> event list \<Rightarrow> string list list" where
  "translated_chunks bk n i [] w = []"
| "translated_chunks bk n i (chunk # rest) w =
     (case translate_text_chunk_with_evolutionary_config bk w chunk of
        (translated_chunk, w1) \<Rightarrow>
          translated_chunk
            # translated_chunks bk n (i + 1) rest
                (if int i < int n - 1 then w1 @ [Sleep 1] else w1))"

section \<open>\<open>extract_text_from_srt\<close>\<close>

text \<open>
  \<open>int(s)\<close> does not raise \<open>ValueError\<close>, for a string \<open>s\<close> that \<open>strip\<close> has already
  freed of surrounding white space: an optional sign, then decimal digits, single
  underscores allowed between digits. (The limit that recent interpreters put on the
  number of digits is not modelled.)
\<close>

fun digits_ok :: "string \<Rightarrow> bool" where
  "digits_ok [] = False"
| "digits_ok [c] = re_digit c"
| "digits_ok (c # d # cs) =
     (re_digit c \<and> (if d = CHR ''_'' then digits_ok cs else digits_ok (d # cs)))"

definition int_ok :: "string \<Rightarrow> bool" where
  "int_ok s =
     (case s of
        [] \<Rightarrow> False
      | c # cs \<Rightarrow> if c = CHR ''+'' \<or> c = CHR ''-'' then digits_ok cs else digits_ok s)"

text \<open>
  The \<open>while\<close> loop over \<open>remainder\<close>, from index \<open>i\<close> on: \<open>rem\<close> is \<open>remainder[i:]\<close>. The
  result is \<open>text_content\<close> when the loop ends or breaks.
\<close>

function font_walk :: "string \<Rightarrow> string list \<Rightarrow> bool \<Rightarrow> string \<Rightarrow> string" where
  "font_walk rem stack in_text text_content =
     (if rem = [] then text_content
      else if lower_str (take 5 rem) = ''<font'' then
        (case py_find CHR ''>'' rem of
           Some tag_end \<Rightarrow>
             font_walk (drop (tag_end + 1) rem) (stack @ [''font'']) True text_content
         | None \<Rightarrow> font_walk (drop 1 rem) stack in_text text_content)
      else if lower_str (take 7 rem) = ''</font>'' then
        (if stack \<noteq> [] \<and> last stack = ''font'' then
           (if butlast stack = [] then text_content
            else font_walk (drop 7 rem) (butlast stack) in_text text_content)
         else font_walk (drop 7 rem) stack in_text text_content)
      else if lower_str (take 3 rem) = ''<b>'' then
        font_walk (drop 3 rem) stack in_text text_content
      else if lower_str (take 4 rem) = ''</b>'' then
        font_walk (drop 4 rem) stack in_text text_content
      else if hd rem = CHR ''<'' then
        (case py_find CHR ''>'' rem of
           Some tag_end \<Rightarrow> font_walk (drop (tag_end + 1) rem) stack in_text text_content
         | None \<Rightarrow> font_walk (drop 1 rem) stack in_text text_content)
      else
        font_walk (drop 1 rem) stack in_text
          (if in_text \<and> stack \<noteq> [] then text_content @ [hd rem] else text_content))"
  by pat_completeness auto
termination
  by (relation "measure (\<lambda>(rem, stack, in_text, text_content). length rem)") auto

declare font_walk.simps [simp del]

text \<open>The body of the loop over \<open>font_starts\<close>; the state is \<open>extracted_texts\<close>.\<close>

definition font_start_step :: "string \<Rightarrow> string list \<Rightarrow> nat \<Rightarrow> string list" where
  "font_start_step content extracted start_pos =
     (let text_content = font_walk (drop start_pos content) [] False []
      in if text_content \<noteq> [] then
           (let clean_text = py_strip (re_sub spaces_rx (\<lambda>m. '' '') text_content);
                clean_text = py_strip (re_sub brace_rx (\<lambda>m. []) clean_text)
            in if clean_text \<noteq> [] \<and> clean_text \<notin> set extracted
               then extracted @ [clean_text] else extracted)
         else extracted)"

definition font_texts :: "string \<Rightarrow> string list" where
  "font_texts content =
     foldl (font_start_step content) []
       (map (\<lambda>m. length (m_before m)) (re_finditer font_open_rx content))"

text \<open>The fallback when no font tag gave a text.\<close>

definition plain_texts :: "string \<Rightarrow> string list" where
  "plain_texts content =
     (let clean_text = re_sub tag_rx (\<lambda>m. []) content;
          clean_text = re_sub brace_rx (\<lambda>m. []) clean_text;
          clean_text = py_strip (re_sub spaces_rx (\<lambda>m. '' '') clean_text)
      in if clean_text \<noteq> [] then [clean_text] else [])"

definition extract_texts :: "string \<Rightarrow> string list" where
  "extract_texts content =
     (let extracted = (if py_in ''<font'' content then font_texts content else [])
      in if extracted = [] then plain_texts content else extracted)"

definition combine_texts :: "string list \<Rightarrow> string" where
  "combine_texts extracted =
     py_strip (re_sub spaces_rx (\<lambda>m. '' '') (re_sub brace_rx (\<lambda>m. []) (py_join '' '' extracted)))"

text \<open>
  One entry of \<open>structure_map\<close>. The key \<open>extracted_texts\<close> is present only in the
  entries with text; \<open>text_index\<close> is a Python \<open>int\<close> or \<open>None\<close>.
\<close>

record block_struct =
  block_number :: string
  timestamp :: string
  content :: string
  text_index :: "int option"
  has_text :: bool
  extracted_texts :: "string list option"
  original_block :: string

text \<open>
  The body of the loop over \<open>blocks\<close>; the state is \<open>texts_to_translate\<close> and
  \<open>structure_map\<close>. A \<open>continue\<close> before any \<open>append\<close> returns the state as it is.
\<close>

definition extract_block ::
    "string list \<times> block_struct list \<Rightarrow> string \<Rightarrow> string list \<times> block_struct list" where
  "extract_block st raw =
     (let texts_to_translate = fst st; structure_map = snd st;
          block = py_strip raw;
          lines = py_split newline block
      in if block = [] then st
         else if length lines < 2 then st
         else if \<not> int_ok (py_strip (lines ! 0)) then st
         else if re_match timestamp_rx (py_strip (lines ! 1)) = None then st
         else
           (let block_number = py_strip (lines ! 0);
                timestamp_line = py_strip (lines ! 1);
                content = py_strip (py_join [newline] (drop 2 lines));
                no_text = \<lparr>block_number = block_number, timestamp = timestamp_line,
                           content = content, text_index = None, has_text = False,
                           extracted_texts = None, original_block = block\<rparr>
            in if content = [] then (texts_to_translate, structure_map @ [no_text])
               else
                 (let extracted = extract_texts content
                  in if extracted \<noteq> [] then
                       (let combined_text = combine_texts extracted
                        in if combined_text = [] \<or> length combined_text < 2
                           then (texts_to_translate, structure_map @ [no_text])
                           else
                             (texts_to_translate @ [combined_text],
                              structure_map @
                                [\<lparr>block_number = block_number, timestamp = timestamp_line,
                                  content = content,
                                  text_index = Some (int (length texts_to_translate)),
                                  has_text = True, extracted_texts = Some extracted,
                                  original_block = block\<rparr>]))
                     else (texts_to_translate, structure_map @ [no_text]))))"

definition srt_blocks :: "string \<Rightarrow> string list" where
  "srt_blocks srt_content = re_split blank_line_rx (py_strip srt_content)"

definition extract_text_from_srt :: "string \<Rightarrow> string list \<times> block_struct list" where
  "extract_text_from_srt srt_content = foldl extract_block ([], []) (srt_blocks srt_content)"

section \<open>\<open>reconstruct_srt_from_translations\<close>\<close>

datatype py_error = IndexError | ValueError

text \<open>\<open>xs[i]\<close>: a negative index counts from the end; out of range raises.\<close>

definition py_index :: "'a list \<Rightarrow> int \<Rightarrow> py_error + 'a" where
  "py_index xs i =
     (if 0 \<le> i \<and> i < int (length xs) then Inr (xs ! nat i)
      else if i < 0 \<and> - int (length xs) \<le> i then Inr (xs ! nat (int (length xs) + i))
      else Inl IndexError)"

definition replace_font_content :: "string \<Rightarrow> rmatch \<Rightarrow> string" where
  "replace_font_content translated_text m =
     (let tag_start = group m 1; middle_content = group m 2; tag_end = group m 3
      in if py_in ''<'' middle_content then
           (let clean_middle = re_sub tag_rx (\<lambda>m. []) middle_content;
                clean_middle = py_strip (re_sub brace_rx (\<lambda>m. []) clean_middle)
            in if clean_middle \<noteq> []
               then tag_start @ py_replace clean_middle translated_text middle_content @ tag_end
               else tag_start @ translated_text @ tag_end)
         else tag_start @ translated_text @ tag_end)"

text \<open>\<open>new_content\<close> for a block whose content holds \<open><font\<close>.\<close>

definition font_new_content :: "string \<Rightarrow> string \<Rightarrow> string" where
  "font_new_content original_content translated_text =
     (let temp_content = re_sub tag_rx (\<lambda>m. []) original_content;
          temp_content = re_sub brace_rx (\<lambda>m. []) temp_content;
          original_text = py_strip (re_sub spaces_rx (\<lambda>m. '' '') temp_content)
      in if original_text \<noteq> [] then
           (if py_in ''<b>'' original_content then
              (case re_search complex_pattern original_content of
                 Some m \<Rightarrow> group m 1 @ translated_text @ group m 3
               | None \<Rightarrow>
                   (case re_search simple_complex_pattern original_content of
                      Some m \<Rightarrow> group m 1 @ translated_text @ group m 3
                    | None \<Rightarrow> py_replace original_text translated_text original_content))
            else re_sub1 simple_font_pattern (replace_font_content translated_text)
                   original_content)
         else original_content)"

text \<open>The block that one entry of the structure map appends to \<open>result_blocks\<close>.\<close>

definition reconstruct_block :: "string list \<Rightarrow> block_struct \<Rightarrow> py_error + string" where
  "reconstruct_block translated_texts struct =
     (if \<not> has_text struct then Inr (original_block struct)
      else
        (case text_index struct of
           None \<Rightarrow> Inr (original_block struct)
         | Some idx \<Rightarrow>
             if idx \<ge> int (length translated_texts) then Inr (original_block struct)
             else
               (case py_index translated_texts idx of
                  Inl e \<Rightarrow> Inl e
                | Inr translated_text \<Rightarrow>
                    Inr (block_number struct @ [newline] @ timestamp struct @ [newline] @
                         (if py_in ''<font'' (content struct)
                          then font_new_content (content struct) translated_text
                          else translated_text)))))"

text \<open>The loop over \<open>structure_map\<close>: \<open>result_blocks\<close>, or the error that stops it.\<close>

fun reconstruct_blocks :: "string list \<Rightarrow> block_struct list \<Rightarrow> py_error + string list" where
  "reconstruct_blocks translated_texts [] = Inr []"
| "reconstruct_blocks translated_texts (struct # rest) =
     (case reconstruct_block translated_texts struct of
        Inl e \<Rightarrow> Inl e
      | Inr block \<Rightarrow>
          (case reconstruct_blocks translated_texts rest of
             Inl e \<Rightarrow> Inl e
           | Inr blocks \<Rightarrow> Inr (block # blocks)))"

definition reconstruct_srt_from_translations ::
    "string list \<Rightarrow> block_struct list \<Rightarrow> py_error + string" where
  "reconstruct_srt_from_translations translated_texts structure_map =
     (case reconstruct_blocks translated_texts structure_map of
        Inl e \<Rightarrow> Inl e
      | Inr result_blocks \<Rightarrow> Inr (py_join [newline, newline] result_blocks))"

section \<open>The proper-noun quotes\<close>

definition dquote :: char where
  "dquote = CHR 0x22"

text \<open>\<open>text_before.count('"') % 2\<close>\<close>

definition quotes_before :: "string \<Rightarrow> nat" where
  "quotes_before text_before = length (filter (\<lambda>c. c = dquote) text_before) mod 2"

definition replace_proper_noun :: "rmatch \<Rightarrow> string" where
  "replace_proper_noun m =
     (if quotes_before (m_before m) = 1 then m_text m else [dquote] @ m_text m @ [dquote])"

text \<open>The result is \<open>modified_text\<close> and \<open>added_quotes_positions\<close>.\<close>

definition add_quotes_to_proper_nouns :: "string \<Rightarrow> string \<times> nat list" where
  "add_quotes_to_proper_nouns text =
     (re_sub proper_noun_rx replace_proper_noun text,
      map (\<lambda>m. length (m_before m))
        (filter (\<lambda>m. quotes_before (m_before m) \<noteq> 1) (re_finditer proper_noun_rx text)))"

text \<open>\<open>s.split()\<close>: the words between runs of white space.\<close>

fun fields :: "string \<Rightarrow> string list" where
  "fields [] = [[]]"
| "fields (c # cs) =
     (if py_isspace c then [] # fields cs
      else (case fields cs of [] \<Rightarrow> [[c]] | x # xs \<Rightarrow> (c # x) # xs))"

definition py_split_space :: "string \<Rightarrow> string list" where
  "py_split_space s = filter (\<lambda>w. w \<noteq> []) (fields s)"

definition should_remove_quotes :: "rmatch \<Rightarrow> string" where
  "should_remove_quotes m =
     (let quoted_content = group m 1
      in if re_match preserved_noun_rx quoted_content \<noteq> None
            \<and> list_all (\<lambda>word. py_isupper (hd word) \<and> list_all py_isalpha word)
                 (py_split_space quoted_content)
         then quoted_content
         else m_text m)"

definition remove_added_quotes :: "string \<Rightarrow> nat list \<Rightarrow> string" where
  "remove_added_quotes text added_positions = re_sub quoted_rx should_remove_quotes text"

section \<open>\<open>translate_simple_text_with_evolutionary_config\<close>\<close>

text \<open>\<^verbatim>\<open>^(?:traducao|translation):\s*\<close>, IGNORECASE, the first word with c-cedilla and a-tilde\<close>

definition translation_prefix_rx :: rx where
  "translation_prefix_rx =
     rseq [RBol,
           RAlt (rstri (''tradu'' @ [CHR 0xE7, CHR 0xE3] @ ''o'')) (rstri ''translation''),
           rc CHR '':'', RStar rspace]"

definition translate_simple_text_with_evolutionary_config ::
    "backend \<Rightarrow> event list \<Rightarrow> string \<Rightarrow> string \<times> event list" where
  "translate_simple_text_with_evolutionary_config bk w text =
     (case add_quotes_to_proper_nouns text of
        (text_with_quotes, added_positions) \<Rightarrow>
          (let req = SimpleTextRequest text_with_quotes
           in case bk w req of
                Status200 body \<Rightarrow>
                  (let translated = py_strip body
                   in if translated \<noteq> [] then
                        (let translated =
                               py_strip (re_sub translation_prefix_rx (\<lambda>m. []) translated)
                         in (remove_added_quotes translated added_positions, w @ [Post req]))
                      else (text, w @ [Post req]))
              | StatusOther code \<Rightarrow> (text, w @ [Post req])
              | Raised \<Rightarrow> (text, w @ [Post req])))"

section \<open>\<open>translate_srt_optimized\<close>\<close>

definition translate_srt_optimized ::
    "backend \<Rightarrow> event list \<Rightarrow> string \<Rightarrow> (py_error + string) \<times> event list" where
  "translate_srt_optimized bk w srt_content =
     (if re_search srt_shape_rx srt_content \<noteq> None then
        (case extract_text_from_srt srt_content of
           (texts_to_translate, structure_map) \<Rightarrow>
             if texts_to_translate = [] then (Inr srt_content, w)
             else
               (case translate_texts_with_evolutionary_config bk w texts_to_translate of
                  (all_translations, w1) \<Rightarrow>
                    (reconstruct_srt_from_translations all_translations structure_map, w1)))
      else
        (case translate_simple_text_with_evolutionary_config bk w srt_content of
           (translated, w1) \<Rightarrow> (Inr translated, w1)))"

section \<open>\<open>split_srt_into_chunks\<close>\<close>

text \<open>
  \<open>subtitle_pattern\<close>, MULTILINE and DOTALL:
  \<^verbatim>\<open>(\d+\n(?:\d{2}:\d{2}:\d{2},\d{3} --> \d{2}:\d{2}:\d{2},\d{3}\n)(?:.*?(?:\n|$))*?)(?=\n\d+\n|\n*$)\<close>
\<close>

definition subtitle_pattern :: rx where
  "subtitle_pattern =
     RSeq
       (RGroup 1
          (rseq [rplus rdigit, rc newline, time_rx, rstr '' --> '', time_rx, rc newline,
                 RStarLazy (RSeq (RStarLazy rany) (RAlt (rc newline) REolM))]))
       (RLook (RAlt (rseq [rc newline, rplus rdigit, rc newline])
                    (RSeq (RStar (rc newline)) REolM)))"

text \<open>\<open>s.split('\n\n')\<close>\<close>

fun split_blank :: "string \<Rightarrow> string list" where
  "split_blank [] = [[]]"
| "split_blank [c] = [[c]]"
| "split_blank (c # d # cs) =
     (if c = newline \<and> d = newline then [] # split_blank cs
      else (case split_blank (d # cs) of [] \<Rightarrow> [[c]] | x # xs \<Rightarrow> (c # x) # xs))"

definition find_subtitles :: "string \<Rightarrow> string list" where
  "find_subtitles srt_text =
     (let subtitles = map (\<lambda>m. group m 1) (re_finditer subtitle_pattern srt_text)
      in if subtitles = []
         then filter (\<lambda>block. block \<noteq> []) (map py_strip (split_blank srt_text))
         else subtitles)"

text \<open>
  The body of the loop over \<open>subtitles\<close>; the state is \<open>chunks\<close>, \<open>current_chunk\<close> and
  \<open>current_tokens\<close>. \<open>count_tokens\<close> is the token counter (the encoder's, or a quarter
  of the length when the encoder fails).
\<close>

definition chunk_step ::
    "(string \<Rightarrow> nat) \<Rightarrow> int \<Rightarrow> string list \<times> string \<times> int \<Rightarrow> string
      \<Rightarrow> string list \<times> string \<times> int" where
  "chunk_step count_tokens effective_max_tokens st subtitle =
     (case st of
        (chunks, current_chunk, current_tokens) \<Rightarrow>
          (let subtitle_tokens = int (count_tokens subtitle)
           in if subtitle_tokens > effective_max_tokens then
                (if current_chunk \<noteq> []
                 then (chunks @ [py_strip current_chunk] @ [py_strip subtitle], [], 0)
                 else (chunks @ [py_strip subtitle], current_chunk, current_tokens))
              else if current_tokens + subtitle_tokens > effective_max_tokens then
                (if current_chunk \<noteq> [] then chunks @ [py_strip current_chunk] else chunks,
                 subtitle, subtitle_tokens)
              else
                (chunks,
                 if current_chunk \<noteq> [] then current_chunk @ [newline, newline] @ subtitle
                 else subtitle,
                 current_tokens + subtitle_tokens)))"

definition chunk_subtitles :: "(string \<Rightarrow> nat) \<Rightarrow> int \<Rightarrow> string list \<Rightarrow> string list" where
  "chunk_subtitles count_tokens max_chunk_tokens subtitles =
     (case foldl (chunk_step count_tokens (max_chunk_tokens - 200)) ([], [], 0) subtitles of
        (chunks, current_chunk, current_tokens) \<Rightarrow>
          if current_chunk \<noteq> [] then chunks @ [py_strip current_chunk] else chunks)"

definition split_srt_into_chunks :: "(string \<Rightarrow> nat) \<Rightarrow> string \<Rightarrow> int \<Rightarrow> string list" where
  "split_srt_into_chunks count_tokens srt_text max_chunk_tokens =
     chunk_subtitles count_tokens max_chunk_tokens (find_subtitles srt_text)"

text \<open>
  The same loop, keeping with every chunk the subtitles it was built from: the state
  holds, beside the state of \<open>chunk_step\<close>, the subtitles of each chunk emitted and those
  joined in \<open>current_chunk\<close>.
\<close>

definition chunk_step_parts ::
    "(string \<Rightarrow> nat) \<Rightarrow> int \<Rightarrow> (string \<times> string list) list \<times> string list \<times> string \<times> int
      \<Rightarrow> string \<Rightarrow> (string \<times> string list) list \<times> string list \<times> string \<times> int" where
  "chunk_step_parts count_tokens effective_max_tokens st subtitle =
     (case st of
        (chunks, parts, current_chunk, current_tokens) \<Rightarrow>
          (let subtitle_tokens = int (count_tokens subtitle)
           in if subtitle_tokens > effective_max_tokens then
                (if current_chunk \<noteq> []
                 then (chunks @ [(py_strip current_chunk, parts)]
                         @ [(py_strip subtitle, [subtitle])], [], [], 0)
                 else (chunks @ [(py_strip subtitle, [subtitle])], parts, current_chunk,
                       current_tokens))
              else if current_tokens + subtitle_tokens > effective_max_tokens then
                (if current_chunk \<noteq> [] then chunks @ [(py_strip current_chunk, parts)]
                 else chunks,
                 [subtitle], subtitle, subtitle_tokens)
              else
                (chunks,
                 if current_chunk \<noteq> [] then parts @ [subtitle] else [subtitle],
                 if current_chunk \<noteq> [] then current_chunk @ [newline, newline] @ subtitle
                 else subtitle,
                 current_tokens + subtitle_tokens)))"

definition chunk_subtitles_parts ::
    "(string \<Rightarrow> nat) \<Rightarrow> int \<Rightarrow> string list \<Rightarrow> (string \<times> string list) list" where
  "chunk_subtitles_parts count_tokens max_chunk_tokens subtitles =
     (case foldl (chunk_step_parts count_tokens (max_chunk_tokens - 200)) ([], [], [], 0)
             subtitles of
        (chunks, parts, current_chunk, current_tokens) \<Rightarrow>
          if current_chunk \<noteq> [] then chunks @ [(py_strip current_chunk, parts)] else chunks)"

definition tokens_of :: "(string \<Rightarrow> nat) \<Rightarrow> string list \<Rightarrow> int" where
  "tokens_of count_tokens parts = sum_list (map (\<lambda>s. int (count_tokens s)) parts)"

section \<open>What the loop of \<open>extract_text_from_srt\<close> does with one block\<close>

text \<open>
  The three checks a stripped block passes before anything is appended: at least two
  lines, a first line that \<open>int\<close> accepts, a second line that starts with a timestamp
  range.
\<close>

definition well_formed_block :: "string \<Rightarrow> bool" where
  "well_formed_block block =
     (2 \<le> length (py_split newline block)
      \<and> int_ok (py_strip (py_split newline block ! 0))
      \<and> re_match timestamp_rx (py_strip (py_split newline block ! 1)) \<noteq> None)"

definition block_content :: "string \<Rightarrow> string" where
  "block_content block = py_strip (py_join [newline] (drop 2 (py_split newline block)))"

text \<open>The text that a block adds to \<open>texts_to_translate\<close>, if it adds one.\<close>

definition block_fragment :: "string \<Rightarrow> string option" where
  "block_fragment block =
     (if block_content block = [] then None
      else if extract_texts (block_content block) = [] then None
      else if combine_texts (extract_texts (block_content block)) = []
              \<or> length (combine_texts (extract_texts (block_content block))) < 2 then None
      else Some (combine_texts (extract_texts (block_content block))))"

text \<open>The entry that a block adds to \<open>structure_map\<close> when \<open>n\<close> texts are collected.\<close>

definition block_entry :: "nat \<Rightarrow> string \<Rightarrow> block_struct" where
  "block_entry n block =
     \<lparr>block_number = py_strip (py_split newline block ! 0),
      timestamp = py_strip (py_split newline block ! 1),
      content = block_content block,
      text_index = (if block_fragment block = None then None else Some (int n)),
      has_text = (block_fragment block \<noteq> None),
      extracted_texts =
        (if block_fragment block = None then None
         else Some (extract_texts (block_content block))),
      original_block = block\<rparr>"

text \<open>
  The numbering of the entries: those with text carry the indices 0, 1, ... in order,
  the others carry none.
\<close>

definition indexed :: "string list \<times> block_struct list \<Rightarrow> bool" where
  "indexed st =
     (map text_index (filter has_text (snd st)) = map (\<lambda>i. Some (int i)) [0 ..< length (fst st)]
      \<and> list_all (\<lambda>s. has_text s = (text_index s \<noteq> None)) (snd st))"

text \<open>The spec's reading of the first check: the line is a positive integer.\<close>

definition positive_integer_line :: "string \<Rightarrow> bool" where
  "positive_integer_line s = (s \<noteq> [] \<and> list_all re_digit s \<and> list_ex (\<lambda>c. c \<noteq> CHR ''0'') s)"


section \<open>\<open>translate_chunk_with_ollama\<close>\<close>

definition max_retries :: nat where
  "max_retries = 3"

definition base_delay :: nat where
  "base_delay = 1"

definition max_delay :: nat where
  "max_delay = 10"

text \<open>\<open>str.isdigit\<close>: the decimal digits and the superscript digits 2, 3, 1.\<close>

definition py_isdigit :: "char \<Rightarrow> bool" where
  "py_isdigit c = (re_digit c \<or> c \<in> set [CHR 0xB2, CHR 0xB3, CHR 0xB9])"

text \<open>
  The search for \<open>start_idx\<close>: the index of the first line that \<open>isdigit\<close> accepts and
  whose \<open>int\<close> is positive, 0 when there is none. \<open>int\<close> raises \<open>ValueError\<close> on a
  superscript digit.
\<close>

fun find_start_idx :: "nat \<Rightarrow> string list \<Rightarrow> py_error + nat" where
  "find_start_idx i [] = Inr 0"
| "find_start_idx i (line # rest) =
     (if py_strip line \<noteq> [] \<and> list_all py_isdigit (py_strip line) then
        (if \<not> list_all re_digit (py_strip line) then Inl ValueError
         else if list_ex (\<lambda>c. c \<noteq> CHR ''0'') (py_strip line) then Inr i
         else find_start_idx (i + 1) rest)
      else find_start_idx (i + 1) rest)"

text \<open>
  \<open>cleanup_patterns\<close>, DOTALL and IGNORECASE:
  \<^verbatim>\<open>\n---END SRT---.*$\<close>, \<^verbatim>\<open>\nTranslated SRT output:.*$\<close>, \<^verbatim>\<open>\n\*\*.*\*\*.*$\<close>,
  \<^verbatim>\<open>\nNote:.*$\<close>, \<^verbatim>\<open>\nNOTE:.*$\<close>, \<^verbatim>\<open>\n\d+\.\s+[A-Z][^:]*:.*$\<close>, \<^verbatim>\<open>\n[A-Z\s]+:.*$\<close>
\<close>

definition to_end_rx :: rx where
  "to_end_rx = RSeq (RStar rany) REol"

definition cleanup_patterns :: "rx list" where
  "cleanup_patterns =
     [rseq [rc newline, rstri ''---END SRT---'', to_end_rx],
      rseq [rc newline, rstri ''Translated SRT output:'', to_end_rx],
      rseq [rc newline, rstr ''**'', RStar rany, rstr ''**'', to_end_rx],
      rseq [rc newline, rstri ''Note:'', to_end_rx],
      rseq [rc newline, rstri ''NOTE:'', to_end_rx],
      rseq [rc newline, rplus rdigit, rc CHR ''.'', rplus rspace, RChar ascii_letter,
            RStar (rnot CHR '':''), rc CHR '':'', to_end_rx],
      rseq [rc newline, rplus (RChar (\<lambda>c. ascii_letter c \<or> py_isspace c)), rc CHR '':'',
            to_end_rx]]"

text \<open>The cleaning of a response with status 200; \<open>translated\<close> is already stripped.\<close>

definition clean_chunk_response :: "string \<Rightarrow> py_error + string" where
  "clean_chunk_response translated =
     (let lines = py_split newline translated
      in case find_start_idx 0 lines of
           Inl e \<Rightarrow> Inl e
         | Inr start_idx \<Rightarrow>
             (let translated =
                    (if start_idx > 0 then py_join [newline] (drop start_idx lines)
                     else translated)
              in Inr (py_strip
                        (foldl (\<lambda>t pattern. re_sub pattern (\<lambda>m. []) t) translated
                           cleanup_patterns))))"

text \<open>
  One pass of the \<open>try\<close> block: the value returned, or \<open>None\<close> when the status is not
  200 or an exception is caught.
\<close>

definition chunk_attempt :: "post_outcome \<Rightarrow> string option" where
  "chunk_attempt outcome =
     (case outcome of
        Status200 body \<Rightarrow>
          (case clean_chunk_response (py_strip body) of Inl e \<Rightarrow> None | Inr t \<Rightarrow> Some t)
      | StatusOther code \<Rightarrow> None
      | Raised \<Rightarrow> None)"

text \<open>\<open>time.sleep(min(base_delay * (2 ** attempt), max_delay))\<close> when \<open>attempt < max_retries - 1\<close>\<close>

definition backoff :: "nat \<Rightarrow> event list" where
  "backoff attempt =
     (if int attempt < int max_retries - 1
      then [Sleep (min (base_delay * 2 ^ attempt) max_delay)] else [])"

text \<open>
  The \<open>for\<close> loop over the attempts still to make; when they are used up, the
  statement after the loop returns \<open>text\<close>.
\<close>

fun chunk_retry ::
    "backend \<Rightarrow> request \<Rightarrow> string \<Rightarrow> nat list \<Rightarrow> event list \<Rightarrow> string \<times> event list" where
  "chunk_retry bk req text [] w = (text, w)"
| "chunk_retry bk req text (attempt # rest) w =
     (case chunk_attempt (bk w req) of
        Some translated \<Rightarrow> (translated, w @ [Post req])
      | None \<Rightarrow> chunk_retry bk req text rest (w @ [Post req] @ backoff attempt))"

definition translate_chunk_with_ollama ::
    "backend \<Rightarrow> event list \<Rightarrow> string \<Rightarrow> string \<Rightarrow> string \<times> event list" where
  "translate_chunk_with_ollama bk w text chunk_info =
     chunk_retry bk (ChunkRequest text chunk_info) text [0 ..< max_retries] w"

section \<open>\<open>translate_text_only_with_ollama\<close>\<close>

text \<open>
  \<open>str.upper\<close>: sharp s becomes SS. (The upper case of the micro sign and of y with
  diaeresis lies beyond code point 255; they are left as they are, and no marker
  holds them.)
\<close>

definition py_upper :: "char \<Rightarrow> string" where
  "py_upper c =
     (if c = CHR 0xDF then ''SS''
      else (case map_of (zip (''abcdefghijklmnopqrstuvwxyz'' @ latin_lower)
                             (''ABCDEFGHIJKLMNOPQRSTUVWXYZ'' @ latin_upper)) c of
              Some u \<Rightarrow> [u]
            | None \<Rightarrow> [c]))"

definition upper_str :: "string \<Rightarrow> string" where
  "upper_str s = concat (map py_upper s)"

text \<open>The letters beyond ASCII of the markers and patterns.\<close>

definition c_cedilla :: char where "c_cedilla = CHR 0xE7"
definition a_tilde :: char where "a_tilde = CHR 0xE3"
definition o_tilde :: char where "o_tilde = CHR 0xF5"
definition u_acute :: char where "u_acute = CHR 0xFA"

definition start_markers :: "string list" where
  "start_markers =
     [''TRANSLATION'', ''TRADU'' @ [CHR 0xC7, CHR 0xC3] @ ''O'', ''RESPOSTA'']"

text \<open>Words separated by \<^verbatim>\<open>\s+\<close>, IGNORECASE.\<close>

fun phrase_rx :: "string list \<Rightarrow> rx" where
  "phrase_rx [] = REps"
| "phrase_rx [word] = rstri word"
| "phrase_rx (word # rest) = RSeq (rstri word) (RSeq (rplus rspace) (phrase_rx rest))"

fun ralts :: "rx list \<Rightarrow> rx" where
  "ralts [] = REps"
| "ralts [x] = x"
| "ralts (x # xs) = RAlt x (ralts xs)"

definition instrucoe :: string where
  "instrucoe = ''instru'' @ [c_cedilla, o_tilde] @ ''e''"

definition traducao :: string where
  "traducao = ''tradu'' @ [c_cedilla, a_tilde] @ ''o''"

definition traducoes :: string where
  "traducoes = ''tradu'' @ [c_cedilla, o_tilde] @ ''es''"

definition numero :: string where
  "numero = ''n'' @ [u_acute] @ ''mero''"

text \<open>\<open>skip_patterns\<close>, in the order of the source, each searched with IGNORECASE.\<close>

definition skip_patterns :: "rx list" where
  "skip_patterns =
     [rseq [RBol, ropt (RSeq (rstri ''as'') (rplus rspace)), rstri instrucoe, ropt (rci CHR ''s''),
            rplus rspace, rstri ''importante'', ropt (rci CHR ''s''), ropt (rc CHR '':'')],
      rseq [RBol, rplus rdigit, rc CHR ''.'', RStar rspace,
            ralts [rstri ''traduza'', rstri ''devolva'', rstri ''mantenha'', rstri ''preserve'',
                   rstri ''use'', phrase_rx [''n'' @ [a_tilde] @ ''o'', ''inclua'']]],
      rseq [RBol, rplus rdigit, rc CHR ''.'', RStar rspace,
            ralts [rstri ''translate'', rstri ''return'', rstri ''keep'', rstri ''preserve'',
                   rstri ''use'', phrase_rx [''do'', ''not'']]],
      rseq [phrase_rx [''important'', instrucoe], ropt (rci CHR ''s''), ropt (rc CHR '':'')],
      phrase_rx [''retorne'', ''apenas''],
      phrase_rx [''return'', ''only''],
      phrase_rx [''uma'', ''por'', ''linha''],
      phrase_rx [''one'', ''per'', ''line''],
      rseq [rstri ''texto'', ropt (rci CHR ''s''), rplus rspace, phrase_rx [''de'', ''entrada'']],
      rseq [phrase_rx [''input'', ''text''], ropt (rci CHR ''s'')],
      phrase_rx [''same'', ''number'', ''of'', ''lines''],
      phrase_rx [''mesmo'', numero, ''de'', ''linhas''],
      rseq [RBol, rplus rdigit, rc CHR ''.'', REol],
      rseq [RBol, rplus rdigit, RStar rspace, REol],
      rseq [RBol, ropt (RSeq (rstri ''input'') (rplus rspace)), rstri ''text'', ropt (rci CHR ''s''),
            ropt (rc CHR '':''), RStar rspace, REol],
      rseq [RBol, rstri ''translation'', ropt (rci CHR ''s''), ropt (rc CHR '':''), RStar rspace,
            REol],
      RAlt (RSeq RBol (rstri traducao))
           (rseq [rstri traducoes, ropt (rc CHR '':''), RStar rspace, REol]),
      rseq [phrase_rx [''important'', ''instruction''], ropt (rci CHR ''s'')],
      phrase_rx [''texto'', ''numerado''],
      phrase_rx [''sound'', ''effects''],
      rseq [rstri ''efeito'', ropt (rci CHR ''s''), rplus rspace, rstri ''sonoro'',
            ropt (rci CHR ''s'')],
      rseq [rstri ''natural'', RStar (rnot newline), rstri ''express''],
      phrase_rx [''original'', ''text''],
      phrase_rx [''texto'', ''original''],
      rseq [rstri ''explanation'', ropt (rci CHR ''s'')],
      rseq [rstri (''explica'' @ [c_cedilla, o_tilde] @ ''e''), ropt (rci CHR ''s'')],
      rstri ''numbering'',
      rstri (''numera'' @ [c_cedilla, a_tilde] @ ''o''),
      phrase_rx [''important'', ''instru'' @ [c_cedilla, a_tilde] @ ''o''],
      rseq [phrase_rx [''textos'', ''de'', ''entrada''], ropt (rc CHR '':'')],
      rseq [rstri ''retorn'', ropt (rci CHR ''e''), rplus rspace,
            phrase_rx [''apenas'', ''as'', traducoes]],
      phrase_rx [''return'', ''only'', ''the'', ''translations''],
      phrase_rx [''uma'', ''por'', ''linha''],
      phrase_rx [''mantenha'', ''o'', ''mesmo'', numero],
      phrase_rx [''keep'', ''the'', ''same'', ''number'']]"

text \<open>\<^verbatim>\<open>^\d+\.\s+\<close>\<close>

definition ordinal_dot_rx :: rx where
  "ordinal_dot_rx = rseq [RBol, rplus rdigit, rc CHR ''.'', rplus rspace]"

text \<open>The body of the loop over the lines of the response; the state is \<open>translations\<close>.\<close>

definition text_only_line :: "string list \<Rightarrow> string \<Rightarrow> string list" where
  "text_only_line translations raw =
     (let line = py_strip raw
      in if line = [] then translations
         else if list_ex (\<lambda>marker. py_in marker (upper_str line)) start_markers
           then translations
         else if list_ex (\<lambda>pattern. re_search pattern line \<noteq> None) skip_patterns
           then translations
         else
           (let line = (if re_match ordinal_dot_rx line \<noteq> None
                        then re_sub ordinal_dot_rx (\<lambda>m. []) line else line)
            in if line \<noteq> [] then translations @ [line] else translations))"

definition text_only_attempt :: "post_outcome \<Rightarrow> string list \<Rightarrow> string list option" where
  "text_only_attempt outcome texts =
     (case outcome of
        Status200 body \<Rightarrow>
          Some (reconcile_text_only
                  (foldl text_only_line [] (py_split newline (py_strip body))) texts)
      | StatusOther code \<Rightarrow> None
      | Raised \<Rightarrow> None)"

text \<open>
  The \<open>for\<close> loop over the attempts still to make. No statement follows the loop:
  when the attempts are used up the function returns Python's \<open>None\<close>.
\<close>

fun text_only_retry ::
    "backend \<Rightarrow> request \<Rightarrow> string list \<Rightarrow> nat list \<Rightarrow> event list
      \<Rightarrow> string list option \<times> event list" where
  "text_only_retry bk req texts [] w = (None, w)"
| "text_only_retry bk req texts (attempt # rest) w =
     (case text_only_attempt (bk w req) texts of
        Some translations \<Rightarrow> (Some translations, w @ [Post req])
      | None \<Rightarrow> text_only_retry bk req texts rest (w @ [Post req] @ backoff attempt))"

definition translate_text_only_with_ollama ::
    "backend \<Rightarrow> event list \<Rightarrow> string list \<Rightarrow> string list option \<times> event list" where
  "translate_text_only_with_ollama bk w texts =
     (if texts = [] then (Some [], w)
      else text_only_retry bk (TextOnlyRequest texts) texts [0 ..< max_retries] w)"

text \<open>A backend that sends back the text it is given, and one that always fails.\<close>

definition echo_backend :: backend where
  "echo_backend w req =
     (case req of
        SimpleTextRequest text \<Rightarrow> Status200 text
      | ChunkRequest text info \<Rightarrow> Status200 text
      | TextOnlyRequest texts \<Rightarrow> Status200 (py_join [newline] texts)
      | EvolutionaryChunkRequest texts \<Rightarrow> Status200 (py_join [newline] texts))"

definition failing_backend :: backend where
  "failing_backend w req = StatusOther 500"

definition quoted_john :: string where
  "quoted_john = [dquote] @ ''John'' @ [dquote] @ '' is here''"

text \<open>A list of twelve fragments, for the examples.\<close>

definition twelve :: "string list" where
  "twelve = [''a0'', ''a1'', ''a2'', ''a3'', ''a4'', ''a5'', ''a6'', ''a7'', ''a8'', ''a9'',
             ''b0'', ''b1'']"

text \<open>Documents for the examples.\<close>

definition doc_two :: string where
  "doc_two = ''1\<newline>00:00:01,000 --> 00:00:02,000\<newline><font color=#fff>John</font>\<newline>\<newline>junk\<newline>\<newline>2\<newline>00:00:03,000 --> 00:00:04,000\<newline>{an8}\<newline>\<newline>3\<newline>00:00:05,000 --> 00:00:06,000\<newline>[boom]\<newline>''"

definition doc_zero :: string where
  "doc_zero = ''0\<newline>00:00:01,000 --> 00:00:02,000\<newline>Hello''"

definition doc_junk :: string where
  "doc_junk = ''junk\<newline>\<newline>7\<newline>00:00:01,000 --> 00:00:02,000\<newline>Hi''"

definition doc_no_text :: string where
  "doc_no_text = ''1\<newline>00:00:01,000 --> 00:00:02,000\<newline>''"



text \<open>An entry with text whose index is -1.\<close>

definition entry_minus_one :: block_struct where
  "entry_minus_one =
     \<lparr>block_number = ''1'', timestamp = ''00:00:01,000 --> 00:00:02,000'', content = ''Hi'',
      text_index = Some (- 1), has_text = True, extracted_texts = Some [''Hi''],
      original_block = ''1\<newline>00:00:01,000 --> 00:00:02,000\<newline>Hi''\<rparr>"

text \<open>The same entry with the index 9.\<close>

definition entry_nine :: block_struct where
  "entry_nine = entry_minus_one\<lparr>text_index := Some 9\<rparr>"


text \<open>
  What holds of a chunk and the subtitles it was built from, for the effective
  budget \<open>e\<close>: the chunk is their join, stripped, and either it is one subtitle that
  alone costs more than \<open>e\<close>, or the subtitles together cost at most \<open>e\<close>.
\<close>

definition chunk_within ::
    "(string \<Rightarrow> nat) \<Rightarrow> int \<Rightarrow> string \<times> string list \<Rightarrow> bool" where
  "chunk_within count_tokens e c =
     (fst c = py_strip (py_join [newline, newline] (snd c)) \<and> snd c \<noteq> []
      \<and> ((length (snd c) = 1 \<and> e < int (count_tokens (hd (snd c))))
          \<or> tokens_of count_tokens (snd c) \<le> e))"

definition doc_long :: string where
  "doc_long = ''1\<newline>00:00:01,000 --> 00:00:02,000\<newline>Hello there, General Kenobi!''"

definition doc_three :: string where
  "doc_three = ''1\<newline>00:00:01,000 --> 00:00:02,000\<newline>Hi\<newline>\<newline>2\<newline>00:00:03,000 --> 00:00:04,000\<newline>Yo\<newline>\<newline>3\<newline>00:00:05,000 --> 00:00:06,000\<newline>Hello there, General Kenobi!''"

text \<open>The invariant of the chunking loop, and the state of \<open>chunk_step\<close> inside that of \<open>chunk_step_parts\<close>.\<close>

definition chunk_inv ::
    "(string \<Rightarrow> nat) \<Rightarrow> int \<Rightarrow> (string \<times> string list) list \<times> string list \<times> string \<times> int \<Rightarrow> bool" where
  "chunk_inv ct e st =
     (case st of (chunks, parts, cur, tok) \<Rightarrow>
        cur = py_join [newline, newline] parts \<and> tokens_of ct parts \<le> tok \<and> 0 \<le> tok
        \<and> (cur \<noteq> [] \<longrightarrow> tok \<le> e) \<and> list_all (chunk_within ct e) chunks)"

definition forget_parts ::
    "(string \<times> string list) list \<times> string list \<times> string \<times> int \<Rightarrow> string list \<times> string \<times> int" where
  "forget_parts st = (case st of (chunks, parts, cur, tok) \<Rightarrow> (map fst chunks, cur, tok))"


section \<open>Reconciliation and the pass over the chunks\<close>


lemma pad_translations_length:
  "length (pad_translations t orig) = max (length t) (length orig)"
proof (induction t orig rule: pad_translations.induct)
  case (1 t orig)
  show ?case
  proof (cases "length t < length orig")
    case True
    with 1 show ?thesis by (subst pad_translations.simps) (simp add: Let_def)
  next
    case False
    then show ?thesis by (subst pad_translations.simps) simp
  qed
qed

lemma pad_translations_nth:
  "i < max (length t) (length orig) \<Longrightarrow>
   pad_translations t orig ! i = (if i < length t then t ! i else orig ! i)"
proof (induction t orig rule: pad_translations.induct)
  case (1 t orig)
  show ?case
  proof (cases "length t < length orig")
    case True
    let ?t' = "t @ [orig ! length t]"
    have step: "pad_translations t orig = pad_translations ?t' orig"
      using True by (subst pad_translations.simps) (simp add: Let_def)
    have "i < max (length ?t') (length orig)" using "1.prems" True by simp
    with "1.IH"[OF True refl] True
    have "pad_translations ?t' orig ! i = (if i < length ?t' then ?t' ! i else orig ! i)"
      by (simp add: Let_def)
    then show ?thesis
      unfolding step using True by (auto simp: nth_append less_Suc_eq)
  next
    case False
    then show ?thesis using "1.prems" by (subst pad_translations.simps) simp
  qed
qed

lemma extract_translations_length:
  "length (extract_translations_from_evolutionary_response response original_texts)
     = length original_texts"
  by (simp add: extract_translations_from_evolutionary_response_def pad_translations_length)

lemma extract_translations_nth:
  "i < length original_texts \<Longrightarrow>
   extract_translations_from_evolutionary_response response original_texts ! i
     = (if i < length (candidate_translations response)
        then candidate_translations response ! i else original_texts ! i)"
  by (simp add: extract_translations_from_evolutionary_response_def pad_translations_nth)

lemma reconcile_text_only_length:
  "length (reconcile_text_only translations texts) = length texts"
  by (simp add: reconcile_text_only_def pad_translations_length)

lemma reconcile_text_only_nth:
  "i < length texts \<Longrightarrow>
   reconcile_text_only translations texts ! i
     = (if i < length translations then translations ! i else texts ! i)"
  by (auto simp: reconcile_text_only_def pad_translations_nth)

lemma translate_text_chunk_length:
  "length (fst (translate_text_chunk_with_evolutionary_config bk w texts)) = length texts"
  by (simp add: translate_text_chunk_with_evolutionary_config_def Let_def
      extract_translations_length split: post_outcome.splits)

lemma translate_text_chunk_log:
  "snd (translate_text_chunk_with_evolutionary_config bk w texts)
     = w @ [Post (EvolutionaryChunkRequest texts)]"
  by (simp add: translate_text_chunk_with_evolutionary_config_def Let_def
      split: post_outcome.splits)

lemma posts_of_append: "posts_of (xs @ ys) = posts_of xs @ posts_of ys"
  by (induction xs rule: posts_of.induct) auto

lemma sleeps_of_append: "sleeps_of (xs @ ys) = sleeps_of xs @ sleeps_of ys"
  by (induction xs rule: sleeps_of.induct) auto

lemma concat_chunks_take:
  "concat (map (\<lambda>k. take n (drop (k * n) xs)) [0 ..< m]) = take (m * n) xs"
proof (induction m)
  case 0
  show ?case by simp
next
  case (Suc m)
  have "Suc m * n = m * n + n" by simp
  then have "take (Suc m * n) xs = take (m * n) xs @ take n (drop (m * n) xs)"
    by (simp only: take_add)
  with Suc show ?case by simp
qed

lemma concat_text_chunks: "concat (text_chunks texts) = texts"
proof -
  have "length texts \<le> ((length texts + chunk_size - 1) div chunk_size) * chunk_size"
    by (simp add: chunk_size_def)
  then show ?thesis
    unfolding text_chunks_def by (simp add: concat_chunks_take)
qed

lemma length_text_chunks:
  "length (text_chunks texts) = (length texts + chunk_size - 1) div chunk_size"
  by (simp add: text_chunks_def)

lemma text_chunks_nth_length:
  assumes "k < length (text_chunks texts)"
  shows "length (text_chunks texts ! k)
           = (if Suc k < length (text_chunks texts) then 10 else length texts - 10 * k)"
    and "0 < length (text_chunks texts ! k)" and "length (text_chunks texts ! k) \<le> 10"
proof -
  let ?m = "(length texts + 9) div 10"
  have k: "k < ?m" using assms by (simp add: length_text_chunks chunk_size_def)
  have "[0 ..< ?m] ! k = k" using k by simp
  then have nth: "text_chunks texts ! k = take 10 (drop (k * 10) texts)"
    using k unfolding text_chunks_def chunk_size_def by (simp del: upt_Suc)
  have len: "length (text_chunks texts ! k) = min 10 (length texts - k * 10)"
    by (simp add: nth min.commute)
  show "length (text_chunks texts ! k)
           = (if Suc k < length (text_chunks texts) then 10 else length texts - 10 * k)"
    using k unfolding len length_text_chunks chunk_size_def by (auto simp: min_def)
  show "0 < length (text_chunks texts ! k)" using k unfolding len by auto
  show "length (text_chunks texts ! k) \<le> 10" unfolding len by simp
qed

lemma translate_chunks_loop_fst:
  "fst (translate_chunks_loop bk n i chunks (acc, w))
     = acc @ concat (translated_chunks bk n i chunks w)"
proof (induction chunks arbitrary: i acc w)
  case Nil
  show ?case by simp
next
  case (Cons c cs)
  show ?case by (simp add: Cons.IH split: prod.splits)
qed

lemma translate_chunks_loop_posts:
  "posts_of (snd (translate_chunks_loop bk n i chunks (acc, w)))
     = posts_of w @ map EvolutionaryChunkRequest chunks"
proof (induction chunks arbitrary: i acc w)
  case Nil
  show ?case by simp
next
  case (Cons c cs)
  obtain tr w1 where t: "translate_text_chunk_with_evolutionary_config bk w c = (tr, w1)"
    by (cases "translate_text_chunk_with_evolutionary_config bk w c")
  have w1: "w1 = w @ [Post (EvolutionaryChunkRequest c)]"
    using translate_text_chunk_log[of bk w c] t by simp
  show ?case by (simp add: t Cons.IH w1 posts_of_append)
qed

lemma translated_chunks_lengths:
  "map length (translated_chunks bk n i chunks w) = map length chunks"
proof (induction chunks arbitrary: i w)
  case Nil
  show ?case by simp
next
  case (Cons c cs)
  obtain tr w1 where t: "translate_text_chunk_with_evolutionary_config bk w c = (tr, w1)"
    by (cases "translate_text_chunk_with_evolutionary_config bk w c")
  have "length tr = length c" using translate_text_chunk_length[of bk w c] t by simp
  then show ?case by (simp add: t Cons.IH)
qed

lemma translate_texts_length:
  "length (fst (translate_texts_with_evolutionary_config bk w texts)) = length texts"
proof -
  have "length (concat (translated_chunks bk n i chunks w)) = length (concat chunks)" for n i chunks
    using translated_chunks_lengths[of bk n i chunks w]
    by (simp add: length_concat)
  then show ?thesis
    by (simp add: translate_texts_with_evolutionary_config_def translate_chunks_loop_fst
        concat_text_chunks)
qed

text \<open>
  C1. The response cleaning and count reconciliation return a list as long as the list
  of input fragments, position by position: position \<open>i\<close> holds the \<open>i\<close>-th candidate line
  when the cleaned response has one, and the original fragment at the same index \<open>i\<close>
  otherwise; candidates beyond the input count are cut. The same holds for the
  reconciliation of \<open>translate_text_only_with_ollama\<close>, and the whole pass over the chunks
  returns as many fragments as it was given.
\<close>

theorem reconciliation_length_and_positions:
  "length (extract_translations_from_evolutionary_response response original_texts)
     = length original_texts
   \<and> (\<forall>i<length original_texts.
         extract_translations_from_evolutionary_response response original_texts ! i
           = (if i < length (candidate_translations response)
              then candidate_translations response ! i else original_texts ! i))
   \<and> length (reconcile_text_only translations original_texts) = length original_texts
   \<and> (\<forall>i<length original_texts.
         reconcile_text_only translations original_texts ! i
           = (if i < length translations then translations ! i else original_texts ! i))
   \<and> length (fst (translate_texts_with_evolutionary_config bk w original_texts))
       = length original_texts"
  by (simp add: extract_translations_length extract_translations_nth
      reconcile_text_only_length reconcile_text_only_nth translate_texts_length)

lemma list_of_length_2: "length xs = 2 \<Longrightarrow> xs = [xs ! 0, xs ! 1]"
  by (cases xs; cases "tl xs") auto

theorem reconciliation_length_and_positions_witness:
  "extract_translations_from_evolutionary_response ''TRANSLATIONS:\<newline>1. Ola mundo\<newline>''
     [''Hello world'', ''Good night''] = [''Ola mundo'', ''Good night'']
   \<and> reconcile_text_only [''a'', ''b'', ''c''] [''Hello world'', ''Good night''] = [''a'', ''b'']"
proof -
  let ?r = "''TRANSLATIONS:\<newline>1. Ola mundo\<newline>''"
  let ?t = "[''Hello world'', ''Good night'']"
  note th = reconciliation_length_and_positions [of ?r ?t "[''a'', ''b'', ''c'']" "\<lambda>w q. Raised" "[]"]
  have c: "candidate_translations ?r = [''Ola mundo'']" by code_simp
  have l1: "length (extract_translations_from_evolutionary_response ?r ?t) = 2"
    using th by simp
  have e0: "extract_translations_from_evolutionary_response ?r ?t ! 0 = ''Ola mundo''"
    using th c by simp
  have e1: "extract_translations_from_evolutionary_response ?r ?t ! 1 = ''Good night''"
    using th c by simp
  have l2: "length (reconcile_text_only [''a'', ''b'', ''c''] ?t) = 2"
    using th by simp
  have r0: "reconcile_text_only [''a'', ''b'', ''c''] ?t ! 0 = ''a''"
    using th by simp
  have r1: "reconcile_text_only [''a'', ''b'', ''c''] ?t ! 1 = ''b''"
    using th by simp
  show ?thesis
    using list_of_length_2[OF l1] list_of_length_2[OF l2] e0 e1 r0 r1 by simp
qed

text \<open>
  C9. The translation pass cuts the fragment list into consecutive chunks of exactly 10
  fragments, the last one possibly shorter and never empty, whatever the fragments
  cost in tokens; their concatenation is the fragment list. The chunks are posted to
  the backend in order, one request each, and the result is the concatenation of the
  translated chunks in that order, each as long as its chunk.
\<close>

theorem chunks_of_ten_in_order:
  "concat (text_chunks texts) = texts
   \<and> (\<forall>k<length (text_chunks texts).
         length (text_chunks texts ! k)
           = (if Suc k < length (text_chunks texts) then 10 else length texts - 10 * k)
         \<and> 0 < length (text_chunks texts ! k) \<and> length (text_chunks texts ! k) \<le> 10)
   \<and> posts_of (snd (translate_texts_with_evolutionary_config bk w texts))
       = posts_of w @ map EvolutionaryChunkRequest (text_chunks texts)
   \<and> fst (translate_texts_with_evolutionary_config bk w texts)
       = concat (translated_chunks bk (length (text_chunks texts)) 0 (text_chunks texts) w)
   \<and> map length (translated_chunks bk (length (text_chunks texts)) 0 (text_chunks texts) w)
       = map length (text_chunks texts)"
proof -
  have sizes: "\<forall>k<length (text_chunks texts).
         length (text_chunks texts ! k)
           = (if Suc k < length (text_chunks texts) then 10 else length texts - 10 * k)
         \<and> 0 < length (text_chunks texts ! k) \<and> length (text_chunks texts ! k) \<le> 10"
    using text_chunks_nth_length[of _ texts] by blast
  show ?thesis
    using sizes
    by (simp only: concat_text_chunks translate_chunks_loop_posts
        translate_chunks_loop_fst translated_chunks_lengths
        translate_texts_with_evolutionary_config_def append_Nil simp_thms)
qed

theorem chunks_of_ten_in_order_witness:
  "text_chunks twelve = [take 10 twelve, [''b0'', ''b1'']]
   \<and> posts_of (snd (translate_texts_with_evolutionary_config (\<lambda>w q. Raised) [] twelve))
       = [EvolutionaryChunkRequest (take 10 twelve), EvolutionaryChunkRequest [''b0'', ''b1'']]
   \<and> concat (text_chunks twelve) = twelve"
proof -
  have c: "text_chunks twelve = [take 10 twelve, [''b0'', ''b1'']]"
    by code_simp
  show ?thesis
    using chunks_of_ten_in_order [of twelve "\<lambda>w q. Raised" "[]"] c by simp
qed

section \<open>Parsing\<close>


lemma extract_block_eq:
  "extract_block (t, sm) raw =
     (if well_formed_block (py_strip raw)
      then (case block_fragment (py_strip raw) of
              None \<Rightarrow> (t, sm @ [block_entry (length t) (py_strip raw)])
            | Some c \<Rightarrow> (t @ [c], sm @ [block_entry (length t) (py_strip raw)]))
      else (t, sm))"
proof (cases "well_formed_block (py_strip raw)")
  case False
  then show ?thesis
    by (auto simp: extract_block_def well_formed_block_def Let_def)
next
  case True
  then have ne: "py_strip raw \<noteq> []"
    by (auto simp: well_formed_block_def)
  from True show ?thesis
    by (simp add: extract_block_def well_formed_block_def Let_def block_fragment_def
        block_entry_def block_content_def ne)
qed

lemma block_entry_simps:
  "original_block (block_entry n b) = b"
  "has_text (block_entry n b) = (block_fragment b \<noteq> None)"
  "text_index (block_entry n b) = (if block_fragment b = None then None else Some (int n))"
  "block_number (block_entry n b) = py_strip (py_split newline b ! 0)"
  "timestamp (block_entry n b) = py_strip (py_split newline b ! 1)"
  "content (block_entry n b) = block_content b"
  by (simp_all add: block_entry_def)

lemma indexed_step: "indexed st \<Longrightarrow> indexed (extract_block st raw)"
proof -
  assume i: "indexed st"
  obtain t sm where st: "st = (t, sm)" by (cases st)
  show ?thesis
    using i unfolding st extract_block_eq
    by (auto simp: indexed_def block_entry_simps split: option.splits)
qed

lemma indexed_foldl: "indexed st \<Longrightarrow> indexed (foldl extract_block st bs)"
proof (induction bs arbitrary: st)
  case Nil
  then show ?case by simp
next
  case (Cons b bs)
  show ?case
    using Cons.IH [OF indexed_step [OF Cons.prems, of b]] by simp
qed

lemma indexed_extract: "indexed (extract_text_from_srt d)"
  unfolding extract_text_from_srt_def by (rule indexed_foldl) (simp add: indexed_def)

lemma kept_blocks_foldl:
  "map original_block (snd (foldl extract_block st bs))
     = map original_block (snd st) @ filter well_formed_block (map py_strip bs)"
proof (induction bs arbitrary: st)
  case Nil
  show ?case by simp
next
  case (Cons b bs)
  obtain t sm where st: "st = (t, sm)" by (cases st)
  show ?case
    unfolding foldl_Cons Cons.IH st extract_block_eq
    by (auto simp: block_entry_simps split: option.splits)
qed

lemma fragments_foldl:
  "fst (foldl extract_block st bs)
     = fst st @ List.map_filter block_fragment (filter well_formed_block (map py_strip bs))"
proof (induction bs arbitrary: st)
  case Nil
  show ?case by (simp add: List.map_filter_simps)
next
  case (Cons b bs)
  obtain t sm where st: "st = (t, sm)" by (cases st)
  show ?case
    unfolding foldl_Cons Cons.IH st extract_block_eq
    by (auto simp: List.map_filter_simps split: option.splits)
qed

text \<open>
  C4. Parsing numbers the fragments 0, 1, 2, ... in document order: the entries of the
  structure map that have text carry exactly these indices, in order, one each; an
  entry has an index if and only if it has text; and the fragment list is as long as
  the number of entries with text.
\<close>

theorem fragment_indices_contiguous:
  "map text_index (filter has_text (snd (extract_text_from_srt d)))
     = map (\<lambda>i. Some (int i)) [0 ..< length (fst (extract_text_from_srt d))]
   \<and> list_all (\<lambda>s. has_text s = (text_index s \<noteq> None)) (snd (extract_text_from_srt d))
   \<and> length (fst (extract_text_from_srt d))
       = length (filter has_text (snd (extract_text_from_srt d)))"
proof -
  have i: "indexed (extract_text_from_srt d)" by (rule indexed_extract)
  then have "length (map text_index (filter has_text (snd (extract_text_from_srt d))))
               = length (map (\<lambda>i. Some (int i)) [0 ..< length (fst (extract_text_from_srt d))])"
    unfolding indexed_def by metis
  then have "length (fst (extract_text_from_srt d))
               = length (filter has_text (snd (extract_text_from_srt d)))"
    by simp
  with i show ?thesis unfolding indexed_def by simp
qed


lemma doc_two_extract:
  "(case extract_text_from_srt doc_two of (t, sm) \<Rightarrow> (t, map text_index sm, map has_text sm))
     = ([''John'', ''[boom]''], [Some 0, None, Some 1], [True, False, True])"
  by code_simp

theorem fragment_indices_contiguous_witness:
  "map text_index (filter has_text (snd (extract_text_from_srt doc_two))) = [Some 0, Some 1]
   \<and> length (filter has_text (snd (extract_text_from_srt doc_two))) = 2
   \<and> length (fst (extract_text_from_srt doc_two)) = 2"
proof -
  have f: "fst (extract_text_from_srt doc_two) = [''John'', ''[boom]'']"
    using doc_two_extract by (simp split: prod.splits)
  have u: "[0 ..< 2] = [0, Suc 0]" by (simp add: upt_rec)
  show ?thesis
    using fragment_indices_contiguous [of doc_two] by (simp add: f u)
qed

text \<open>
  C6, as the code has it. The structure map holds exactly the blocks that have at least
  two lines, a first line that \<open>int\<close> accepts (a sign, zero and negative numbers
  included) and a second line that starts with a timestamp range, in document order;
  the fragments come from these blocks only. A block that fails a check leaves the
  state as it is; a block that passes all three always adds its entry.
\<close>

theorem malformed_blocks_dropped:
  "map original_block (snd (extract_text_from_srt d))
     = filter well_formed_block (map py_strip (srt_blocks d))
   \<and> fst (extract_text_from_srt d)
       = List.map_filter block_fragment (filter well_formed_block (map py_strip (srt_blocks d)))
   \<and> (\<not> well_formed_block (py_strip raw) \<longrightarrow> extract_block st raw = st)
   \<and> (well_formed_block (py_strip raw) \<longrightarrow>
        map original_block (snd (extract_block st raw))
          = map original_block (snd st) @ [py_strip raw])"
proof -
  obtain t sm where st: "st = (t, sm)" by (cases st)
  have 1: "map original_block (snd (extract_text_from_srt d))
             = filter well_formed_block (map py_strip (srt_blocks d))"
    by (simp add: extract_text_from_srt_def kept_blocks_foldl)
  have 2: "fst (extract_text_from_srt d)
             = List.map_filter block_fragment
                 (filter well_formed_block (map py_strip (srt_blocks d)))"
    by (simp add: extract_text_from_srt_def fragments_foldl)
  have 3: "\<not> well_formed_block (py_strip raw) \<longrightarrow> extract_block st raw = st"
    by (simp add: st extract_block_eq)
  have 4: "well_formed_block (py_strip raw) \<longrightarrow>
        map original_block (snd (extract_block st raw))
          = map original_block (snd st) @ [py_strip raw]"
    by (simp add: st extract_block_eq block_entry_simps split: option.splits)
  from 1 2 3 4 show ?thesis by blast
qed

theorem malformed_blocks_dropped_witness:
  "map original_block (snd (extract_text_from_srt doc_junk))
     = [''7\<newline>00:00:01,000 --> 00:00:02,000\<newline>Hi'']
   \<and> fst (extract_text_from_srt doc_junk) = [''Hi'']
   \<and> extract_block ([], []) ''junk'' = ([], [])"
proof -
  have b1: "filter well_formed_block (map py_strip (srt_blocks doc_junk))
              = [''7\<newline>00:00:01,000 --> 00:00:02,000\<newline>Hi'']"
    by code_simp
  have b2: "List.map_filter block_fragment [''7\<newline>00:00:01,000 --> 00:00:02,000\<newline>Hi'']
              = [''Hi'']"
    by code_simp
  have b3: "\<not> well_formed_block (py_strip ''junk'')"
    by code_simp
  note th = malformed_blocks_dropped [of doc_junk "''junk''" "([], [])"]
  from th have "map original_block (snd (extract_text_from_srt doc_junk))
                  = [''7\<newline>00:00:01,000 --> 00:00:02,000\<newline>Hi'']"
    unfolding b1 by (rule conjunct1)
  moreover from th have "fst (extract_text_from_srt doc_junk) = [''Hi'']"
    unfolding b1 b2 by blast
  moreover from th b3 have "extract_block ([], []) ''junk'' = ([], [])"
    by blast
  ultimately show ?thesis by blast
qed

text \<open>
  The block numbered 0 is kept, with its fragment, although 0 is not a positive
  integer.
\<close>

theorem zero_numbered_block_kept:
  "\<not> positive_integer_line (py_strip (py_split newline doc_zero ! 0))
   \<and> fst (extract_text_from_srt doc_zero) = [''Hello'']
   \<and> map original_block (snd (extract_text_from_srt doc_zero)) = [doc_zero]"
  by code_simp

text \<open>
  C10. A document that has the shape of a subtitle file and yields no fragment is
  returned as it is, and the backend is not called: the log of events is unchanged.
\<close>

theorem no_fragments_returns_input:
  "re_search srt_shape_rx d \<noteq> None \<Longrightarrow> fst (extract_text_from_srt d) = [] \<Longrightarrow>
   translate_srt_optimized bk w d = (Inr d, w)"
proof -
  assume s: "re_search srt_shape_rx d \<noteq> None" and e: "fst (extract_text_from_srt d) = []"
  obtain t sm where x: "extract_text_from_srt d = (t, sm)"
    by (cases "extract_text_from_srt d")
  with e have "t = []" by simp
  with s x show ?thesis by (simp add: translate_srt_optimized_def)
qed

theorem no_fragments_returns_input_witness:
  "translate_srt_optimized (\<lambda>w q. Status200 ''x'') [] doc_no_text = (Inr doc_no_text, [])"
proof -
  have s: "re_search srt_shape_rx doc_no_text \<noteq> None" by code_simp
  have e: "fst (extract_text_from_srt doc_no_text) = []" by code_simp
  show ?thesis by (rule no_fragments_returns_input [OF s e])
qed

section \<open>Reconstruction\<close>



lemma py_index_not_negative: "0 \<le> i \<Longrightarrow> i < int (length xs) \<Longrightarrow> \<exists>x. py_index xs i = Inr x"
  by (simp add: py_index_def)

lemma reconstruct_block_original:
  "\<not> has_text s \<or> text_index s = None \<or> (\<exists>i. text_index s = Some i \<and> int (length ts) \<le> i)
   \<Longrightarrow> reconstruct_block ts s = Inr (original_block s)"
  by (auto simp: reconstruct_block_def split: option.splits)

lemma reconstruct_block_total:
  "has_text s \<longrightarrow> (\<forall>i. text_index s = Some i \<longrightarrow> 0 \<le> i) \<Longrightarrow> \<exists>b. reconstruct_block ts s = Inr b"
proof (cases "\<not> has_text s \<or> text_index s = None
              \<or> (\<exists>i. text_index s = Some i \<and> int (length ts) \<le> i)")
  case True
  then show ?thesis using reconstruct_block_original by blast
next
  case False
  assume a: "has_text s \<longrightarrow> (\<forall>i. text_index s = Some i \<longrightarrow> 0 \<le> i)"
  from False obtain i where i: "text_index s = Some i" "i < int (length ts)" "has_text s"
    by (cases "text_index s") auto
  with a have "0 \<le> i" by simp
  with i obtain x where "py_index ts i = Inr x" using py_index_not_negative by blast
  with i show ?thesis by (simp add: reconstruct_block_def)
qed

lemma reconstruct_blocks_total:
  "list_all (\<lambda>s. has_text s \<longrightarrow> (\<forall>i. text_index s = Some i \<longrightarrow> 0 \<le> i)) sm
   \<Longrightarrow> \<exists>bs. reconstruct_blocks ts sm = Inr bs \<and> map Inr bs = map (reconstruct_block ts) sm"
proof (induction sm)
  case Nil
  show ?case by simp
next
  case (Cons s sm)
  from Cons.prems have "has_text s \<longrightarrow> (\<forall>i. text_index s = Some i \<longrightarrow> 0 \<le> i)" by simp
  then obtain b where b: "reconstruct_block ts s = Inr b"
    using reconstruct_block_total by blast
  from Cons obtain bs where bs: "reconstruct_blocks ts sm = Inr bs"
      "map Inr bs = map (reconstruct_block ts) sm" by auto
  show ?case by (rule exI [of _ "b # bs"]) (simp add: b bs)
qed

text \<open>
  C8, as the code has it. An entry without text, without an index, or with an index at
  or beyond the length of the translations list gives its original block unchanged.
  When no entry with text has a negative index (the parser assigns none), the
  reconstructor does not raise: it returns the blocks of the entries, in the order
  of the structure map, joined by a blank line.
\<close>

theorem out_of_range_emits_original:
  "(\<not> has_text s \<or> text_index s = None \<or> (\<exists>i. text_index s = Some i \<and> int (length ts) \<le> i)
      \<longrightarrow> reconstruct_block ts s = Inr (original_block s))
   \<and> (list_all (\<lambda>s. has_text s \<longrightarrow> (\<forall>i. text_index s = Some i \<longrightarrow> 0 \<le> i)) sm \<longrightarrow>
        (\<exists>bs. reconstruct_srt_from_translations ts sm = Inr (py_join [newline, newline] bs)
              \<and> map Inr bs = map (reconstruct_block ts) sm))"
proof -
  have 1: "\<not> has_text s \<or> text_index s = None
             \<or> (\<exists>i. text_index s = Some i \<and> int (length ts) \<le> i)
           \<longrightarrow> reconstruct_block ts s = Inr (original_block s)"
    using reconstruct_block_original by blast
  have 2: "list_all (\<lambda>s. has_text s \<longrightarrow> (\<forall>i. text_index s = Some i \<longrightarrow> 0 \<le> i)) sm \<longrightarrow>
        (\<exists>bs. reconstruct_srt_from_translations ts sm = Inr (py_join [newline, newline] bs)
              \<and> map Inr bs = map (reconstruct_block ts) sm)"
  proof
    assume "list_all (\<lambda>s. has_text s \<longrightarrow> (\<forall>i. text_index s = Some i \<longrightarrow> 0 \<le> i)) sm"
    then obtain bs where "reconstruct_blocks ts sm = Inr bs"
        "map Inr bs = map (reconstruct_block ts) sm"
      using reconstruct_blocks_total by blast
    then show "\<exists>bs. reconstruct_srt_from_translations ts sm = Inr (py_join [newline, newline] bs)
              \<and> map Inr bs = map (reconstruct_block ts) sm"
      by (auto simp: reconstruct_srt_from_translations_def)
  qed
  from 1 2 show ?thesis by blast
qed

theorem out_of_range_emits_original_witness:
  "reconstruct_block [''Oi''] entry_nine = Inr (original_block entry_nine)
   \<and> reconstruct_srt_from_translations [''Oi''] [entry_nine]
       = Inr ''1\<newline>00:00:01,000 --> 00:00:02,000\<newline>Hi''"
proof -
  note th = out_of_range_emits_original [of entry_nine "[''Oi'']" "[entry_nine]"]
  have i: "text_index entry_nine = Some 9" "has_text entry_nine"
      "original_block entry_nine = ''1\<newline>00:00:01,000 --> 00:00:02,000\<newline>Hi''"
    by (simp_all add: entry_nine_def entry_minus_one_def)
  from th i have b: "reconstruct_block [''Oi''] entry_nine = Inr (original_block entry_nine)"
    by simp
  have la: "list_all (\<lambda>s. has_text s \<longrightarrow> (\<forall>i. text_index s = Some i \<longrightarrow> 0 \<le> i)) [entry_nine]"
    using i by simp
  from th la obtain bs where bs:
      "reconstruct_srt_from_translations [''Oi''] [entry_nine] = Inr (py_join [newline, newline] bs)"
      "map Inr bs = map (reconstruct_block [''Oi'']) [entry_nine]"
    by blast
  from bs(2) b have "bs = [original_block entry_nine]" by (cases bs) auto
  with bs(1) b i show ?thesis by simp
qed

text \<open>
  The guard tests the upper bound only. With the index -1 and no translation the
  lookup raises \<open>IndexError\<close>; with two translations it takes the last one instead of
  keeping the original block.
\<close>

theorem negative_index_not_guarded:
  "reconstruct_srt_from_translations [] [entry_minus_one] = Inl IndexError
   \<and> reconstruct_srt_from_translations [''a'', ''b''] [entry_minus_one]
       = Inr ''1\<newline>00:00:01,000 --> 00:00:02,000\<newline>b''"
  by code_simp

section \<open>The round trip\<close>












section \<open>Chunking by tokens\<close>


lemma py_join_snoc: "xs \<noteq> [] \<Longrightarrow> py_join sep (xs @ [x]) = py_join sep xs @ sep @ x"
  by (induction sep xs rule: py_join.induct) auto

lemma tokens_of_simps:
  "tokens_of ct [] = 0"
  "tokens_of ct [s] = int (ct s)"
  "tokens_of ct (ps @ [s]) = tokens_of ct ps + int (ct s)"
  by (simp_all add: tokens_of_def)

lemma chunk_inv_init: "chunk_inv ct e ([], [], [], 0)"
  by (simp add: chunk_inv_def tokens_of_simps)

lemma chunk_inv_step:
  assumes "chunk_inv ct e st"
  shows "chunk_inv ct e (chunk_step_parts ct e st s)"
proof -
  obtain chunks parts cur tok where st: "st = (chunks, parts, cur, tok)"
    by (cases st)
  from assms have j: "cur = py_join [newline, newline] parts"
    and t: "tokens_of ct parts \<le> tok" and z: "0 \<le> tok" and b: "cur \<noteq> [] \<longrightarrow> tok \<le> e"
    and c: "list_all (chunk_within ct e) chunks"
    by (simp_all add: chunk_inv_def st)
  have pn: "cur \<noteq> [] \<Longrightarrow> parts \<noteq> []" using j by auto
  have cw: "cur \<noteq> [] \<Longrightarrow> chunk_within ct e (py_strip cur, parts)"
    using j t b pn by (simp add: chunk_within_def)
  have ov: "e < int (ct s) \<Longrightarrow> chunk_within ct e (py_strip s, [s])"
    by (simp add: chunk_within_def)
  show ?thesis
  proof (cases "e < int (ct s)")
    case True
    then show ?thesis
      using j t z b c cw ov
      by (simp add: st chunk_step_parts_def chunk_inv_def Let_def tokens_of_simps)
  next
    case False
    show ?thesis
    proof (cases "e < tok + int (ct s)")
      case True
      with False show ?thesis
        using c cw
        by (simp add: st chunk_step_parts_def chunk_inv_def Let_def tokens_of_simps)
    next
      case over: False
      with False show ?thesis
        using j t z c pn
        by (simp add: st chunk_step_parts_def chunk_inv_def Let_def tokens_of_simps
            py_join_snoc)
    qed
  qed
qed

lemma chunk_inv_foldl:
  "chunk_inv ct e st \<Longrightarrow> chunk_inv ct e (foldl (chunk_step_parts ct e) st subs)"
proof (induction subs arbitrary: st)
  case Nil
  then show ?case by simp
next
  case (Cons s subs)
  show ?case using Cons.IH [OF chunk_inv_step [OF Cons.prems, of s]] by simp
qed

lemma chunks_within: "list_all (chunk_within ct (m - 200)) (chunk_subtitles_parts ct m subs)"
proof -
  let ?st = "foldl (chunk_step_parts ct (m - 200)) ([], [], [], 0) subs"
  obtain chunks parts cur tok where st: "?st = (chunks, parts, cur, tok)"
    by (cases ?st)
  have "chunk_inv ct (m - 200) ?st"
    by (rule chunk_inv_foldl [OF chunk_inv_init])
  then have j: "cur = py_join [newline, newline] parts"
    and t: "tokens_of ct parts \<le> tok" and b: "cur \<noteq> [] \<longrightarrow> tok \<le> m - 200"
    and c: "list_all (chunk_within ct (m - 200)) chunks"
    by (simp_all add: chunk_inv_def st)
  have "cur \<noteq> [] \<Longrightarrow> chunk_within ct (m - 200) (py_strip cur, parts)"
    using j t b by (auto simp: chunk_within_def)
  with c show ?thesis
    by (simp add: chunk_subtitles_parts_def st)
qed

lemma forget_parts_step:
  "forget_parts (chunk_step_parts ct e st s) = chunk_step ct e (forget_parts st) s"
  by (cases st) (simp add: forget_parts_def chunk_step_parts_def chunk_step_def Let_def)

lemma forget_parts_foldl:
  "forget_parts (foldl (chunk_step_parts ct e) st subs)
     = foldl (chunk_step ct e) (forget_parts st) subs"
  by (induction subs arbitrary: st) (simp_all add: forget_parts_step)

lemma chunks_of_parts: "map fst (chunk_subtitles_parts ct m subs) = chunk_subtitles ct m subs"
proof -
  let ?st = "foldl (chunk_step_parts ct (m - 200)) ([], [], [], 0) subs"
  obtain chunks parts cur tok where st: "?st = (chunks, parts, cur, tok)"
    by (cases ?st)
  have "foldl (chunk_step ct (m - 200)) ([], [], 0) subs = forget_parts ?st"
    using forget_parts_foldl [of ct "m - 200" "([], [], [], 0)" subs]
    by (simp add: forget_parts_def)
  then show ?thesis
    by (simp add: chunk_subtitles_parts_def chunk_subtitles_def st forget_parts_def)
qed

text \<open>
  C5, as the code has it. Every chunk is the stripped join of the subtitles it was
  built from, and either these cost together at most the effective budget (the
  budget minus 200), or the chunk is a single subtitle that alone costs more than
  the effective budget. Such a subtitle is emitted as a chunk of its own right after
  the pending chunk, if any, is flushed; nothing raises.
\<close>

theorem chunks_within_effective_budget:
  "map fst (chunk_subtitles_parts count_tokens max_chunk_tokens (find_subtitles srt_text))
     = split_srt_into_chunks count_tokens srt_text max_chunk_tokens
   \<and> list_all (chunk_within count_tokens (max_chunk_tokens - 200))
       (chunk_subtitles_parts count_tokens max_chunk_tokens (find_subtitles srt_text))
   \<and> (max_chunk_tokens - 200 < int (count_tokens subtitle) \<longrightarrow>
        chunk_step count_tokens (max_chunk_tokens - 200) (chunks, current_chunk, current_tokens)
          subtitle
        = (if current_chunk \<noteq> []
           then (chunks @ [py_strip current_chunk, py_strip subtitle], [], 0)
           else (chunks @ [py_strip subtitle], current_chunk, current_tokens)))"
  by (simp add: chunks_of_parts chunks_within split_srt_into_chunks_def chunk_step_def)

lemma doc_three_parts:
  "chunk_subtitles_parts length 300 (find_subtitles doc_three)
     = [(''1\<newline>00:00:01,000 --> 00:00:02,000\<newline>Hi\<newline>\<newline>\<newline>2\<newline>00:00:03,000 --> 00:00:04,000\<newline>Yo'',
         [''1\<newline>00:00:01,000 --> 00:00:02,000\<newline>Hi\<newline>'', ''2\<newline>00:00:03,000 --> 00:00:04,000\<newline>Yo\<newline>'']),
        (''3\<newline>00:00:05,000 --> 00:00:06,000\<newline>Hello there, General Kenobi!'',
         [''3\<newline>00:00:05,000 --> 00:00:06,000\<newline>Hello there, General Kenobi!''])]"
  by code_simp

theorem chunks_within_effective_budget_witness:
  "split_srt_into_chunks length doc_three 300
     = [''1\<newline>00:00:01,000 --> 00:00:02,000\<newline>Hi\<newline>\<newline>\<newline>2\<newline>00:00:03,000 --> 00:00:04,000\<newline>Yo'',
        ''3\<newline>00:00:05,000 --> 00:00:06,000\<newline>Hello there, General Kenobi!'']
   \<and> chunk_within length 100
        (''1\<newline>00:00:01,000 --> 00:00:02,000\<newline>Hi\<newline>\<newline>\<newline>2\<newline>00:00:03,000 --> 00:00:04,000\<newline>Yo'',
         [''1\<newline>00:00:01,000 --> 00:00:02,000\<newline>Hi\<newline>'', ''2\<newline>00:00:03,000 --> 00:00:04,000\<newline>Yo\<newline>''])
   \<and> chunk_step length 100 ([], ''x'', 1) doc_three = ([''x'', doc_three], [], 0)"
proof -
  note th = chunks_within_effective_budget [of length 300 doc_three doc_three "[]" "''x''" 1]
  have l: "(100::int) < int (length doc_three)" by (simp add: doc_three_def)
  have s: "py_strip doc_three = doc_three" "py_strip ''x'' = ''x''" by code_simp+
  show ?thesis
    using th l by (simp add: doc_three_parts s)
qed

text \<open>
  With the budget 256 the effective budget is 56. A subtitle of 60 tokens is a chunk of
  its own: it costs more than the effective budget although it does not exceed the
  budget.
\<close>

theorem oversized_within_budget:
  "split_srt_into_chunks length doc_long 256 = [doc_long]
   \<and> chunk_subtitles_parts length 256 (find_subtitles doc_long) = [(doc_long, [doc_long])]
   \<and> tokens_of length [doc_long] = 60
   \<and> \<not> tokens_of length [doc_long] \<le> 256 - 200
   \<and> \<not> 256 < tokens_of length [doc_long]"
  by code_simp

section \<open>The retry loops\<close>


lemma posts_of_backoff: "posts_of (backoff a) = []"
  by (simp add: backoff_def)

lemma chunk_retry_all_fail:
  assumes "\<forall>w'. chunk_attempt (bk w' req) = None"
  shows "chunk_retry bk req text atts w
           = (text, w @ concat (map (\<lambda>a. Post req # backoff a) atts))"
  using assms by (induction atts arbitrary: w) simp_all

lemma text_only_retry_all_fail:
  assumes "\<forall>w'. text_only_attempt (bk w' req) texts = None"
  shows "text_only_retry bk req texts atts w
           = (None, w @ concat (map (\<lambda>a. Post req # backoff a) atts))"
  using assms by (induction atts arbitrary: w) simp_all

lemma chunk_retry_at_most:
  "length (posts_of (snd (chunk_retry bk req text atts w)))
     \<le> length (posts_of w) + length atts"
proof (induction atts arbitrary: w)
  case Nil
  show ?case by simp
next
  case (Cons a atts)
  show ?case
  proof (cases "chunk_attempt (bk w req)")
    case None
    with Cons [of "w @ [Post req] @ backoff a"] show ?thesis
      by (simp add: posts_of_append posts_of_backoff)
  next
    case (Some t)
    then show ?thesis by (simp add: posts_of_append)
  qed
qed

lemma text_only_retry_at_most:
  "length (posts_of (snd (text_only_retry bk req texts atts w)))
     \<le> length (posts_of w) + length atts"
proof (induction atts arbitrary: w)
  case Nil
  show ?case by simp
next
  case (Cons a atts)
  show ?case
  proof (cases "text_only_attempt (bk w req) texts")
    case None
    with Cons [of "w @ [Post req] @ backoff a"] show ?thesis
      by (simp add: posts_of_append posts_of_backoff)
  next
    case (Some t)
    then show ?thesis by (simp add: posts_of_append)
  qed
qed

lemma three_attempts: "[0 ..< max_retries] = [0, 1, 2]"
  by (simp add: max_retries_def upt_rec)

lemma backoff_values: "backoff 0 = [Sleep 1]" "backoff (Suc 0) = [Sleep 2]" "backoff 2 = []"
  by (simp_all add: backoff_def max_retries_def base_delay_def max_delay_def)

lemma translate_chunk_retry_policy:
  "length (posts_of (snd (translate_chunk_with_ollama bk w text chunk_info)))
     \<le> length (posts_of w) + 3"
  and "(\<forall>w'. chunk_attempt (bk w' (ChunkRequest text chunk_info)) = None) \<Longrightarrow>
   translate_chunk_with_ollama bk w text chunk_info
     = (text, w @ [Post (ChunkRequest text chunk_info), Sleep 1,
                   Post (ChunkRequest text chunk_info), Sleep 2,
                   Post (ChunkRequest text chunk_info)])"
proof -
  show "length (posts_of (snd (translate_chunk_with_ollama bk w text chunk_info)))
     \<le> length (posts_of w) + 3"
    using chunk_retry_at_most [of bk "ChunkRequest text chunk_info" "text" "[0 ..< max_retries]" w]
    by (simp add: translate_chunk_with_ollama_def max_retries_def)
  assume "\<forall>w'. chunk_attempt (bk w' (ChunkRequest text chunk_info)) = None"
  then show "translate_chunk_with_ollama bk w text chunk_info
     = (text, w @ [Post (ChunkRequest text chunk_info), Sleep 1,
                   Post (ChunkRequest text chunk_info), Sleep 2,
                   Post (ChunkRequest text chunk_info)])"
    unfolding translate_chunk_with_ollama_def three_attempts
    by (simp add: chunk_retry_all_fail backoff_values)
qed

lemma translate_text_only_retry_policy:
  "length (posts_of (snd (translate_text_only_with_ollama bk w texts)))
     \<le> length (posts_of w) + 3"
  and "texts \<noteq> [] \<Longrightarrow>
   (\<forall>w'. text_only_attempt (bk w' (TextOnlyRequest texts)) texts = None) \<Longrightarrow>
   translate_text_only_with_ollama bk w texts
     = (None, w @ [Post (TextOnlyRequest texts), Sleep 1,
                   Post (TextOnlyRequest texts), Sleep 2,
                   Post (TextOnlyRequest texts)])"
proof -
  show "length (posts_of (snd (translate_text_only_with_ollama bk w texts)))
     \<le> length (posts_of w) + 3"
    using text_only_retry_at_most [of bk "TextOnlyRequest texts" texts "[0 ..< max_retries]" w]
    by (simp add: translate_text_only_with_ollama_def max_retries_def)
  assume "texts \<noteq> []" "\<forall>w'. text_only_attempt (bk w' (TextOnlyRequest texts)) texts = None"
  then show "translate_text_only_with_ollama bk w texts
     = (None, w @ [Post (TextOnlyRequest texts), Sleep 1,
                   Post (TextOnlyRequest texts), Sleep 2,
                   Post (TextOnlyRequest texts)])"
    unfolding translate_text_only_with_ollama_def three_attempts
    by (simp add: text_only_retry_all_fail backoff_values)
qed

text \<open>
  C3, at a backend that answers every call with status 500. Both loops make three
  calls and sleep 1 and 2 seconds between them. \<open>translate_chunk_with_ollama\<close> then
  returns the text it was given; \<open>translate_text_only_with_ollama\<close> has no statement
  after its loop and returns \<open>None\<close> instead of the fragments it was given.
\<close>

theorem text_only_exhausted_returns_none:
  "translate_text_only_with_ollama failing_backend [] [''Hello'']
     = (None, [Post (TextOnlyRequest [''Hello'']), Sleep 1,
               Post (TextOnlyRequest [''Hello'']), Sleep 2,
               Post (TextOnlyRequest [''Hello''])])
   \<and> translate_chunk_with_ollama failing_backend [] ''Hello'' []
       = (''Hello'', [Post (ChunkRequest ''Hello'' []), Sleep 1,
                      Post (ChunkRequest ''Hello'' []), Sleep 2,
                      Post (ChunkRequest ''Hello'' [])])"
  by code_simp


section \<open>The proper-noun quotes\<close>

text \<open>
  C7, at a text whose author quoted a name. \<open>add_quotes_to_proper_nouns\<close> adds no
  quote (the name already stands after an odd number of quotes), and records no
  position; \<open>remove_added_quotes\<close> ignores the positions and removes the author's
  quotes, so that a backend that sends the text back unchanged yields a different
  text.
\<close>

theorem original_quotes_removed:
  "add_quotes_to_proper_nouns quoted_john = (quoted_john, [])
   \<and> remove_added_quotes quoted_john [] = ''John is here''
   \<and> translate_simple_text_with_evolutionary_config echo_backend [] quoted_john
       = (''John is here'', [Post (SimpleTextRequest quoted_john)])"
  by code_simp

section \<open>The entry point does not raise\<close>

text \<open>
  The parser assigns no negative index, so the reconstruction inside
  \<open>translate_srt_optimized\<close> always returns a document.
\<close>


lemma parsed_indices_not_negative:
  "list_all (\<lambda>s. has_text s \<longrightarrow> (\<forall>i. text_index s = Some i \<longrightarrow> 0 \<le> i))
     (snd (extract_text_from_srt d))"
proof -
  let ?sm = "snd (extract_text_from_srt d)" and ?n = "length (fst (extract_text_from_srt d))"
  have m: "map text_index (filter has_text ?sm) = map (\<lambda>i. Some (int i)) [0 ..< ?n]"
    using indexed_extract [of d] by (simp add: indexed_def)
  have "has_text s \<longrightarrow> (\<forall>i. text_index s = Some i \<longrightarrow> 0 \<le> i)" if "s \<in> set ?sm" for s
  proof (intro impI allI)
    fix i assume h: "has_text s" and i: "text_index s = Some i"
    from that h have "text_index s \<in> set (map text_index (filter has_text ?sm))" by simp
    then have "text_index s \<in> set (map (\<lambda>i. Some (int i)) [0 ..< ?n])" by (simp only: m)
    with i show "0 \<le> i" by auto
  qed
  then show ?thesis by (simp add: list_all_iff)
qed

lemma translate_srt_optimized_never_raises:
  "\<exists>out. fst (translate_srt_optimized bk w d) = Inr out"
proof (cases "re_search srt_shape_rx d \<noteq> None")
  case False
  then show ?thesis
    by (simp add: translate_srt_optimized_def split: prod.splits)
next
  case True
  obtain t sm where e: "extract_text_from_srt d = (t, sm)"
    by (cases "extract_text_from_srt d")
  show ?thesis
  proof (cases "t = []")
    case True
    with \<open>re_search srt_shape_rx d \<noteq> None\<close> e show ?thesis
      by (simp add: translate_srt_optimized_def)
  next
    case False
    obtain tr w1 where tt: "translate_texts_with_evolutionary_config bk w t = (tr, w1)"
      by (cases "translate_texts_with_evolutionary_config bk w t")
    have "list_all (\<lambda>s. has_text s \<longrightarrow> (\<forall>i. text_index s = Some i \<longrightarrow> 0 \<le> i)) sm"
      using parsed_indices_not_negative [of d] e by simp
    then obtain bs where "reconstruct_blocks tr sm = Inr bs"
      using reconstruct_blocks_total by blast
    then have "\<exists>out. reconstruct_srt_from_translations tr sm = Inr out"
      by (simp add: reconstruct_srt_from_translations_def)
    with True False e tt show ?thesis
      by (simp add: translate_srt_optimized_def)
  qed
qed

end
